theory Spec2Isabelle
  imports Main "HOL-Library.Char_ord" "HOL-Library.List_Lexorder"
begin

section \<open>Data model\<close>

text \<open>
  A JavaScript object is an association list of its own properties, in the order
  in which \<open>Object.entries\<close> enumerates them; property names are unique.
  All values handled by the translation handlers are strings, so a flat JSON
  object is a list of (key, string) pairs and the words dictionary is a list of
  (key, entry) pairs. A character of a string stands for one code unit of the
  JavaScript string, so the strings of the model are those of code units below 256.
  The numeric reordering of array-index keys is outside this model.
\<close>

type_synonym 'v jsobj = "(string \<times> 'v) list"
type_synonym jobj = "string jsobj"
type_synonym dict = "jobj jsobj"

text \<open>The own property named \<open>k\<close>: the value of the first (only) pair with that name.\<close>

definition obj_get :: "'v jsobj \<Rightarrow> string \<Rightarrow> 'v option" where
  "obj_get obj k = map_of obj k"

text \<open>\<open>obj[k] = v\<close>: an existing property keeps its position, a new one is appended.\<close>

fun obj_set :: "'v jsobj \<Rightarrow> string \<Rightarrow> 'v \<Rightarrow> 'v jsobj" where
  "obj_set [] k v = [(k, v)]"
| "obj_set ((k', v') # rest) k v =
     (if k' = k then (k, v) # rest else (k', v') # obj_set rest k v)"

definition keys :: "'v jsobj \<Rightarrow> string list" where
  "keys obj = map fst obj"

text \<open>
  A string value, or the lack of one, counts as false: the property is missing or the
  empty string.
\<close>

definition falsy :: "string option \<Rightarrow> bool" where
  "falsy v = (case v of None \<Rightarrow> True | Some s \<Rightarrow> s = [])"

text \<open>
  A property that an object does not have itself is looked up in its prototype. The
  objects of the handlers are plain objects, whose prototype is \<open>Object.prototype\<close>;
  these are the names of its members in Node.js. Each member is a function, except
  \<open>__proto__\<close>, an accessor that yields the prototype itself; so \<open>obj[k]\<close> is a truthy
  value for each of these names when \<open>obj\<close> has no property \<open>k\<close> of its own. No language
  code is among them, so a lookup by language code sees own properties only.
\<close>

definition proto_names :: "string list" where
  "proto_names =
     [''constructor'', ''__defineGetter__'', ''__defineSetter__'', ''hasOwnProperty'',
      ''__lookupGetter__'', ''__lookupSetter__'', ''isPrototypeOf'', ''propertyIsEnumerable'',
      ''toString'', ''valueOf'', ''__proto__'', ''toLocaleString'']"

text \<open>\<open>!obj[k]\<close> for a plain object with string values and any property name.\<close>

definition js_falsy :: "jobj \<Rightarrow> string \<Rightarrow> bool" where
  "js_falsy obj k =
     (case obj_get obj k of None \<Rightarrow> k \<notin> set proto_names | Some s \<Rightarrow> s = [])"

text \<open>
  The outcomes other than success. \<open>OutsideModel\<close> is not an outcome of the program: it
  marks an input on which this model leaves the behaviour of the program open (a glob
  over hidden entries or metacharacters, a words asset outside the modelled grammar,
  a write through \<open>__proto__\<close>, a write under an arbitrary name onto an inherited
  function).
\<close>

datatype error = FormatError | IOError | TypeError | TranslationServiceError | OutsideModel

subsection \<open>LanguageSet\<close>

definition getLanguages :: "string list" where
  "getLanguages = [''en'', ''de'', ''ru'', ''pt'', ''nl'', ''fr'', ''it'', ''es'', ''pl'', ''zh-cn'']"

definition createEmptyLangObject :: "'v \<Rightarrow> 'v jsobj" where
  "createEmptyLangObject createDefault =
     foldl (\<lambda>obj curr. obj_set obj curr createDefault) [] getLanguages"

section \<open>FilePatternDeriver\<close>

text \<open>The regular expression class \<open>\w\<close>: ASCII letters, digits and underscore.\<close>

definition is_word :: "char \<Rightarrow> bool" where
  "is_word c = ((CHR ''a'' \<le> c \<and> c \<le> CHR ''z'') \<or> (CHR ''A'' \<le> c \<and> c \<le> CHR ''Z'')
                \<or> (CHR ''0'' \<le> c \<and> c \<le> CHR ''9'') \<or> c = CHR ''_'')"

text \<open>\<open>baseFile.match(/\Wen\W/)\<close>: is there a match anywhere in the string?\<close>

fun match_WenW :: "string \<Rightarrow> bool" where
  "match_WenW (a # e # n # b # rest) =
     ((\<not> is_word a \<and> e = CHR ''e'' \<and> n = CHR ''n'' \<and> \<not> is_word b)
      \<or> match_WenW (e # n # b # rest))"
| "match_WenW _ = False"

text \<open>
  \<open>.replace(/(?<=\W)en(?=\W)/, ")([a-z-]+)(")\<close>: the text before and the text after the
  first \<open>en\<close> that has a non-word character on each side; \<open>None\<close> when nothing is
  replaced.
\<close>

fun split_en :: "string \<Rightarrow> (string \<times> string) option" where
  "split_en (a # e # n # b # rest) =
     (if \<not> is_word a \<and> e = CHR ''e'' \<and> n = CHR ''n'' \<and> \<not> is_word b
      then Some ([a], b # rest)
      else map_option (\<lambda>(p, s). (a # p, s)) (split_en (e # n # b # rest)))"
| "split_en _ = None"

text \<open>
  Modelled from the spec: \<open>util.escapeRegExp\<close> is not among the sources. It is taken
  to quote every regular-expression metacharacter, so that the two pieces of the
  escaped file name around the replaced \<open>en\<close> match exactly their own text. The regular
  expression \<open>^(prefix)([a-z-]+)(suffix)$\<close> with flag \<open>i\<close> is then determined by the two
  literal pieces; \<open>Literal\<close> is the expression \<open>^(file)$\<close> that results when nothing
  was replaced.
\<close>

datatype file_pattern = Pattern (prefix: string) (suffix: string) | Literal string

definition createFilePattern :: "string \<Rightarrow> error + file_pattern" where
  "createFilePattern baseFile =
     (if \<not> match_WenW baseFile then Inl FormatError
      else Inr (case split_en baseFile of
                  Some (p, s) \<Rightarrow> Pattern p s
                | None \<Rightarrow> Literal baseFile))"

text \<open>
  Case-insensitive comparison (flag \<open>i\<close>): ASCII letters compare by their lower case.
\<close>

definition to_lower :: "char \<Rightarrow> char" where
  "to_lower c =
     (case map_of (zip ''ABCDEFGHIJKLMNOPQRSTUVWXYZ'' ''abcdefghijklmnopqrstuvwxyz'') c of
        None \<Rightarrow> c
      | Some l \<Rightarrow> l)"

definition ci_eq :: "string \<Rightarrow> string \<Rightarrow> bool" where
  "ci_eq a b = (map to_lower a = map to_lower b)"

text \<open>The class \<open>[a-z-]\<close> under flag \<open>i\<close>.\<close>

definition lang_char :: "char \<Rightarrow> bool" where
  "lang_char c = ((CHR ''a'' \<le> c \<and> c \<le> CHR ''z'') \<or> (CHR ''A'' \<le> c \<and> c \<le> CHR ''Z'')
                  \<or> c = CHR ''-'')"

text \<open>
  \<open>file.match(/^(p)([a-z-]+)(s)$/i)\<close>: the three groups of the match. The two literal
  pieces have fixed lengths, so the middle group is what lies between them.
\<close>

definition match_groups :: "string \<Rightarrow> string \<Rightarrow> string \<Rightarrow> (string \<times> string \<times> string) option" where
  "match_groups p s file =
     (let np = length p; ns = length s; n = length file;
          g1 = take np file; g2 = take (n - np - ns) (drop np file); g3 = drop (n - ns) file
      in if np + ns < n \<and> ci_eq g1 p \<and> ci_eq g3 s \<and> list_all lang_char g2
         then Some (g1, g2, g3) else None)"

text \<open>
  \<open>file.match(filePattern)\<close> followed by \<open>match[2]\<close>. The expression \<open>^(file)$\<close> has no
  second group, so it never yields a language.
\<close>

fun match_lang :: "file_pattern \<Rightarrow> string \<Rightarrow> string option" where
  "match_lang (Pattern p s) file = map_option (\<lambda>(g1, g2, g3). g2) (match_groups p s file)"
| "match_lang (Literal f) file = None"

text \<open>
  \<open>baseFile.replace(filePattern, `$1${lang}$3`)\<close>: without a match the string is
  returned as it is; a group that the expression does not have stays as written.
\<close>

fun replace_lang :: "file_pattern \<Rightarrow> string \<Rightarrow> string \<Rightarrow> string" where
  "replace_lang (Pattern p s) file lang =
     (case match_groups p s file of None \<Rightarrow> file | Some (g1, g2, g3) \<Rightarrow> g1 @ lang @ g3)"
| "replace_lang (Literal f) file lang = (if ci_eq file f then file @ lang @ ''$3'' else file)"

section \<open>External collaborators\<close>

text \<open>
  The world the handlers act on: the JSON files on disk (path and parsed content),
  the text of the words asset, the invocations of the translation capability so
  far (text and target language, oldest first) and the lines written with
  \<open>console.warn\<close>. Directories and the lines written with \<open>console.log\<close> are left out.
\<close>

record world =
  files :: "jobj jsobj"
  wordsFile :: "string option"
  calls :: "(string \<times> string) list"
  warnings :: "string list"

text \<open>
  The translation capability \<open>translateText\<close> is a parameter: a deterministic function
  of text and target language that may fail (\<open>None\<close>, a rejected promise).
\<close>

type_synonym translator = "string \<Rightarrow> string \<Rightarrow> string option"

definition translateText :: "translator \<Rightarrow> string \<Rightarrow> string \<Rightarrow> world \<Rightarrow> (error + string) \<times> world" where
  "translateText tr text lang w =
     ((case tr text lang of None \<Rightarrow> Inl TranslationServiceError | Some r \<Rightarrow> Inr r),
      w\<lparr>calls := calls w @ [(text, lang)]\<rparr>)"

definition readJson :: "string \<Rightarrow> world \<Rightarrow> jobj option" where
  "readJson file w = obj_get (files w) file"

definition writeJson :: "string \<Rightarrow> jobj \<Rightarrow> world \<Rightarrow> world" where
  "writeJson file content w = w\<lparr>files := obj_set (files w) file content\<rparr>"

definition console_warn :: "string \<Rightarrow> world \<Rightarrow> world" where
  "console_warn line w = w\<lparr>warnings := warnings w @ [line]\<rparr>"

definition starts_with :: "string \<Rightarrow> string \<Rightarrow> bool" where
  "starts_with p s = (take (length p) s = p)"

definition ends_with :: "string \<Rightarrow> string \<Rightarrow> bool" where
  "ends_with e s = (length e \<le> length s \<and> drop (length s - length e) s = e)"

text \<open>
  The glob \<open>admin/**/*.json\<close> of the library tiny-glob, with absolute results. The
  library reads the whole path as a pattern and leaves out hidden entries (a name
  that begins with a dot). The model covers the plain case: the admin directory is
  an absolute, normalized path, no segment of it begins with a dot, no file below it
  has a segment that begins with a dot or is empty, and all these paths are made of
  ASCII letters, digits and the characters \<open>_\<close>, \<open>-\<close>, \<open>.\<close> and \<open>/\<close>.
\<close>

fun odd_segment :: "string \<Rightarrow> bool" where
  "odd_segment (a # b # rest) =
     ((a = CHR ''/'' \<and> (b = CHR ''/'' \<or> b = CHR ''.'')) \<or> odd_segment (b # rest))"
| "odd_segment [a] = (a = CHR ''/'')"
| "odd_segment [] = False"

definition plain_char :: "char \<Rightarrow> bool" where
  "plain_char c = (is_word c \<or> c = CHR ''/'' \<or> c = CHR ''-'' \<or> c = CHR ''.'')"

definition glob_modelled :: "string \<Rightarrow> world \<Rightarrow> bool" where
  "glob_modelled admin w =
     (starts_with ''/'' admin \<and> list_all plain_char admin \<and> \<not> odd_segment admin \<and>
      list_all (\<lambda>file. list_all plain_char file \<and> \<not> odd_segment file)
        (filter (starts_with (admin @ ''/'')) (keys (files w))))"

text \<open>
  In the plain case the glob yields the files below the admin directory whose name
  ends in \<open>.json\<close>, in the order of the directory listing.
\<close>

definition glob_json :: "string \<Rightarrow> world \<Rightarrow> string list" where
  "glob_json admin w =
     filter (\<lambda>file. starts_with (admin @ ''/'') file \<and> ends_with ''.json'' file) (keys (files w))"

definition findAllLanguageFiles :: "string \<Rightarrow> string \<Rightarrow> world \<Rightarrow> error + string list" where
  "findAllLanguageFiles admin baseFile w =
     (case createFilePattern baseFile of
        Inl e \<Rightarrow> Inl e
      | Inr filePattern \<Rightarrow>
          if glob_modelled admin w
          then Inr (filter (\<lambda>file. case match_lang filePattern file of
                                     None \<Rightarrow> False
                                   | Some lang \<Rightarrow> lang \<in> set getLanguages)
                      (glob_json admin w))
          else Inl OutsideModel)"

section \<open>MergeEngine\<close>

subsection \<open>translateNotExisting\<close>

text \<open>\<open>const text = obj.en || baseText; if (text) ...\<close>: the source text when it is truthy.\<close>

definition source_text :: "jobj \<Rightarrow> string option \<Rightarrow> string option" where
  "source_text obj baseText =
     (case (if falsy (obj_get obj ''en'') then baseText else obj_get obj ''en'') of
        None \<Rightarrow> None
      | Some text \<Rightarrow> if text = [] then None else Some text)"

fun translateNotExisting_loop ::
  "translator \<Rightarrow> string \<Rightarrow> string list \<Rightarrow> jobj \<Rightarrow> world \<Rightarrow> (error + jobj) \<times> world" where
  "translateNotExisting_loop tr text [] obj w = (Inr obj, w)"
| "translateNotExisting_loop tr text (lang # rest) obj w =
     (if falsy (obj_get obj lang)
      then (case translateText tr text lang w of
              (Inl e, w') \<Rightarrow> (Inl e, w')
            | (Inr r, w') \<Rightarrow> translateNotExisting_loop tr text rest (obj_set obj lang r) w')
      else translateNotExisting_loop tr text rest obj w)"

definition translateNotExisting ::
  "translator \<Rightarrow> jobj \<Rightarrow> string option \<Rightarrow> world \<Rightarrow> (error + jobj) \<times> world" where
  "translateNotExisting tr obj baseText w =
     (case source_text obj baseText of
        None \<Rightarrow> (Inr obj, w)
      | Some text \<Rightarrow> translateNotExisting_loop tr text getLanguages obj w)"

subsection \<open>translateI18n\<close>

text \<open>
  The loop of \<open>translateI18nJson\<close>. The test \<open>!content[t]\<close> sees inherited members: only
  a key that is false there is assigned, so the assignment either changes an own
  property or adds one.
\<close>

fun translateI18nJson_loop ::
  "translator \<Rightarrow> string \<Rightarrow> jobj \<Rightarrow> jobj \<Rightarrow> world \<Rightarrow> (error + jobj) \<times> world" where
  "translateI18nJson_loop tr lang [] content w = (Inr content, w)"
| "translateI18nJson_loop tr lang ((t, base) # rest) content w =
     (if js_falsy content t
      then (case translateText tr base lang w of
              (Inl e, w') \<Rightarrow> (Inl e, w')
            | (Inr r, w') \<Rightarrow> translateI18nJson_loop tr lang rest (obj_set content t r) w')
      else translateI18nJson_loop tr lang rest content w)"

definition translateI18nJson ::
  "translator \<Rightarrow> jobj \<Rightarrow> string \<Rightarrow> jobj \<Rightarrow> world \<Rightarrow> (error + jobj) \<times> world" where
  "translateI18nJson tr content lang baseContent w =
     (if lang = ''en'' then (Inr content, w)
      else translateI18nJson_loop tr lang baseContent content w)"

text \<open>
  The first loop of \<open>translateI18n\<close>, over the discovered files. It carries the set of
  languages still missing, kept as a list in the order of \<open>getLanguages\<close>.
\<close>

fun translateI18n_existing ::
  "translator \<Rightarrow> file_pattern \<Rightarrow> jobj \<Rightarrow> string list \<Rightarrow> string list \<Rightarrow> world
     \<Rightarrow> (error + string list) \<times> world" where
  "translateI18n_existing tr filePattern baseContent [] missingLanguages w =
     (Inr missingLanguages, w)"
| "translateI18n_existing tr filePattern baseContent (file # rest) missingLanguages w =
     (case match_lang filePattern file of
        None \<Rightarrow> translateI18n_existing tr filePattern baseContent rest missingLanguages w
      | Some lang \<Rightarrow>
          (if lang = ''en''
           then translateI18n_existing tr filePattern baseContent rest
                  (removeAll lang missingLanguages) w
           else (case readJson file w of
                   None \<Rightarrow> (Inl IOError, w)
                 | Some translation \<Rightarrow>
                    (case translateI18nJson tr translation lang baseContent w of
                       (Inl e, w') \<Rightarrow> (Inl e, w')
                     | (Inr translation', w') \<Rightarrow>
                         translateI18n_existing tr filePattern baseContent rest
                           (removeAll lang missingLanguages)
                           (writeJson file translation' w')))))"

text \<open>The second loop, over the languages that no discovered file covers.\<close>

fun translateI18n_missing ::
  "translator \<Rightarrow> file_pattern \<Rightarrow> string \<Rightarrow> jobj \<Rightarrow> string list \<Rightarrow> world
     \<Rightarrow> (error + unit) \<times> world" where
  "translateI18n_missing tr filePattern baseFile baseContent [] w = (Inr (), w)"
| "translateI18n_missing tr filePattern baseFile baseContent (lang # rest) w =
     (case translateI18nJson tr [] lang baseContent w of
        (Inl e, w') \<Rightarrow> (Inl e, w')
      | (Inr translation, w') \<Rightarrow>
          translateI18n_missing tr filePattern baseFile baseContent rest
            (writeJson (replace_lang filePattern baseFile lang) translation w'))"

definition translateI18n :: "translator \<Rightarrow> string \<Rightarrow> string \<Rightarrow> world \<Rightarrow> (error + unit) \<times> world" where
  "translateI18n tr admin baseFile w =
     (case createFilePattern baseFile of
        Inl e \<Rightarrow> (Inl e, w)
      | Inr filePattern \<Rightarrow>
         (case readJson baseFile w of
            None \<Rightarrow> (Inl IOError, w)
          | Some baseContent \<Rightarrow>
             (case findAllLanguageFiles admin baseFile w of
                Inl e \<Rightarrow> (Inl e, w)
              | Inr fs \<Rightarrow>
                 (case translateI18n_existing tr filePattern baseContent fs getLanguages w of
                    (Inl e, w') \<Rightarrow> (Inl e, w')
                  | (Inr missingLanguages, w') \<Rightarrow>
                      translateI18n_missing tr filePattern baseFile baseContent
                        missingLanguages w'))))"

section \<open>LegacyDictionaryCodec\<close>

definition dquote :: char where
  "dquote = CHR 0x22"

definition backslash :: char where
  "backslash = CHR 0x5C"

text \<open>White space and line terminators, as \<open>trim\<close> and the lexer of the language see them
  (the ASCII ones).\<close>

definition is_space :: "char \<Rightarrow> bool" where
  "is_space c = (c \<in> set [CHR '' '', CHR 0x09, CHR 0x0A, CHR 0x0B, CHR 0x0C, CHR 0x0D])"

definition trimEnd :: "string \<Rightarrow> string" where
  "trimEnd s = rev (dropWhile is_space (rev s))"

definition trim :: "string \<Rightarrow> string" where
  "trim s = dropWhile is_space (trimEnd s)"

text \<open>
  Modelled from the spec: \<open>util.padRight\<close> is not among the sources. It pads the text
  with spaces on the right up to the given minimum width and never shortens it.
\<close>

definition padRight :: "string \<Rightarrow> nat \<Rightarrow> string" where
  "padRight s totalLength = s @ replicate (totalLength - length s) CHR '' ''"

text \<open>\<open>item.replace(/"/g, '\\"')\<close>\<close>

definition escape_quotes :: "string \<Rightarrow> string" where
  "escape_quotes s = concat (map (\<lambda>c. if c = dquote then [backslash, dquote] else [c]) s)"

text \<open>\<open>lines.join(EOL)\<close>\<close>

fun join :: "string \<Rightarrow> string list \<Rightarrow> string" where
  "join sep [] = []"
| "join sep [l] = l"
| "join sep (l # ls) = l @ sep @ join sep ls"

subsection \<open>createWordsJs\<close>

definition words_header :: "string list" where
  "words_header =
     [''/*global systemDictionary:true */'',
      ''/*'',
      ''+===================== DO NOT MODIFY ======================+'',
      ''| This file was generated by translate-adapter, please use |'',
      ''| '' @ [CHR 0x60] @ ''translate-adapter adminLanguages2words'' @ [CHR 0x60]
        @ '' to update it.   |'',
      ''+===================== DO NOT MODIFY ======================+'',
      ''*/'',
      [CHR 0x27] @ ''use strict'' @ [CHR 0x27] @ '';'' @ [CHR 0x0A],
      ''systemDictionary = {'']"

text \<open>The inner loop: one piece of the line per language of the entry.\<close>

definition words_item :: "string \<times> string \<Rightarrow> string" where
  "words_item = (\<lambda>(lang, item).
     [dquote] @ lang @ [dquote] @ '': '' @ [dquote]
       @ padRight (escape_quotes item @ [dquote] @ '','') 50 @ '' '')"

definition words_line :: "string \<times> jobj \<Rightarrow> string" where
  "words_line = (\<lambda>(word, translations).
     let line = concat (map words_item translations);
         line' = (if line \<noteq> [] then butlast (trim line) else line);
         preamble = padRight ([dquote] @ escape_quotes word @ [dquote] @ '': {'') 50
     in ''    '' @ preamble @ line' @ ''},'')"

text \<open>The line separator \<open>os.EOL\<close> is a parameter.\<close>

definition createWordsJs :: "string \<Rightarrow> dict \<Rightarrow> string" where
  "createWordsJs eol data = trimEnd (join eol (words_header @ map words_line data @ [''};'']))"

subsection \<open>parseWordJs\<close>

text \<open>
  Modelled from the spec: \<open>parseWordJs\<close> evaluates the extracted text with the
  language's own evaluator (\<open>new Function\<close>), which is not part of the sources. The
  evaluation is modelled for the object-literal grammar of the words asset: an object
  whose keys are double-quoted strings and whose values are objects with double-quoted
  string keys and double-quoted string values, with optional trailing commas. For a
  text of this grammar the result is the value of the evaluation. For any other
  text (single quotes, unquoted keys, comments, numeric escapes, a line continuation
  inside a string, other expressions) the result is \<open>None\<close>, whether JavaScript
  throws on the text or evaluates it.
\<close>

datatype token = LBrace | RBrace | Colon | Comma | Str string

text \<open>The character that a backslash followed by \<open>e\<close> stands for.\<close>

definition unescape :: "char \<Rightarrow> char option" where
  "unescape e =
     (if e = CHR ''b'' then Some (CHR 0x08)
      else if e = CHR ''t'' then Some (CHR 0x09)
      else if e = CHR ''n'' then Some (CHR 0x0A)
      else if e = CHR ''v'' then Some (CHR 0x0B)
      else if e = CHR ''f'' then Some (CHR 0x0C)
      else if e = CHR ''r'' then Some (CHR 0x0D)
      else if e = CHR ''x'' \<or> e = CHR ''u'' \<or> (CHR ''0'' \<le> e \<and> e \<le> CHR ''9'')
              \<or> e = CHR 0x0A \<or> e = CHR 0x0D then None
      else Some e)"

fun lex :: "string \<Rightarrow> token list option"
  and lex_str :: "string \<Rightarrow> string \<Rightarrow> token list option"
  and lex_esc :: "string \<Rightarrow> string \<Rightarrow> token list option" where
  "lex [] = Some []"
| "lex (c # cs) =
     (if is_space c then lex cs
      else if c = CHR ''{'' then map_option (Cons LBrace) (lex cs)
      else if c = CHR ''}'' then map_option (Cons RBrace) (lex cs)
      else if c = CHR '':'' then map_option (Cons Colon) (lex cs)
      else if c = CHR '','' then map_option (Cons Comma) (lex cs)
      else if c = dquote then lex_str [] cs
      else None)"
| "lex_str acc [] = None"
| "lex_str acc (c # cs) =
     (if c = dquote then map_option (Cons (Str (rev acc))) (lex cs)
      else if c = backslash then lex_esc acc cs
      else if c = CHR 0x0A \<or> c = CHR 0x0D then None
      else lex_str (c # acc) cs)"
| "lex_esc acc [] = None"
| "lex_esc acc (e # cs) =
     (case unescape e of None \<Rightarrow> None | Some c \<Rightarrow> lex_str (c # acc) cs)"

text \<open>
  A property definition of an object literal. The name \<open>__proto__\<close> sets the prototype
  and creates no property of the object itself.
\<close>

definition lit_set :: "'v jsobj \<Rightarrow> string \<Rightarrow> 'v \<Rightarrow> 'v jsobj" where
  "lit_set obj k v = (if k = ''__proto__'' then obj else obj_set obj k v)"

text \<open>
  The parser: \<open>d\<close> is the dictionary so far, \<open>k\<close> and \<open>e\<close> the key and the entry of the
  inner literal being read. A literal that defines \<open>__proto__\<close> twice is a syntax error;
  \<open>pd\<close> and \<open>pe\<close> tell whether the outer and the inner literal have defined it already.
\<close>

fun p_top_key :: "dict \<Rightarrow> bool \<Rightarrow> token list \<Rightarrow> dict option"
  and p_top_sep :: "dict \<Rightarrow> bool \<Rightarrow> token list \<Rightarrow> dict option"
  and p_in_key :: "dict \<Rightarrow> bool \<Rightarrow> string \<Rightarrow> jobj \<Rightarrow> bool \<Rightarrow> token list \<Rightarrow> dict option"
  and p_in_sep :: "dict \<Rightarrow> bool \<Rightarrow> string \<Rightarrow> jobj \<Rightarrow> bool \<Rightarrow> token list \<Rightarrow> dict option" where
  "p_top_key d pd [RBrace] = Some d"
| "p_top_key d pd (Str k # Colon # LBrace # ts) =
     (if k = ''__proto__'' \<and> pd then None
      else p_in_key d (pd \<or> k = ''__proto__'') k [] False ts)"
| "p_top_key d pd _ = None"
| "p_top_sep d pd [RBrace] = Some d"
| "p_top_sep d pd (Comma # ts) = p_top_key d pd ts"
| "p_top_sep d pd _ = None"
| "p_in_key d pd k e pe (RBrace # ts) = p_top_sep (lit_set d k e) pd ts"
| "p_in_key d pd k e pe (Str l # Colon # Str v # ts) =
     (if l = ''__proto__'' \<and> pe then None
      else p_in_sep d pd k (lit_set e l v) (pe \<or> l = ''__proto__'') ts)"
| "p_in_key d pd k e pe _ = None"
| "p_in_sep d pd k e pe (RBrace # ts) = p_top_sep (lit_set d k e) pd ts"
| "p_in_sep d pd k e pe (Comma # ts) = p_in_key d pd k e pe ts"
| "p_in_sep d pd k e pe _ = None"

definition eval_literal :: "string \<Rightarrow> dict option" where
  "eval_literal s =
     (case lex s of
        Some (LBrace # ts) \<Rightarrow> p_top_key [] False ts
      | _ \<Rightarrow> None)"

text \<open>
  \<open>words.substring(words.indexOf("{"), words.length)\<close>: from the first brace on, or
  the whole text when there is none (the index -1 counts as 0).
\<close>

definition from_first_brace :: "string \<Rightarrow> string" where
  "from_first_brace s = (if CHR ''{'' \<in> set s then dropWhile (\<lambda>c. c \<noteq> CHR ''{'') s else s)"

text \<open>
  \<open>words.substring(0, words.lastIndexOf(";"))\<close>: up to the last semicolon, or the empty
  text when there is none.
\<close>

definition to_last_semicolon :: "string \<Rightarrow> string" where
  "to_last_semicolon s = rev (tl (dropWhile (\<lambda>c. c \<noteq> CHR '';'') (rev s)))"

definition parseWordJs :: "string \<Rightarrow> dict option" where
  "parseWordJs ws = eval_literal (to_last_semicolon (from_first_brace ws))"

subsection \<open>adminWords2languages\<close>

text \<open>
  The pre-fill of all languages: \<open>langs[j][word] = langs[j][word] || ""\<close>. For a word
  named like a member of \<open>Object.prototype\<close> that the language lacks, the value is the
  inherited member; \<open>writeJson\<close> leaves a property with such a value out, so the object
  is kept as it is.
\<close>

definition prefill :: "string \<Rightarrow> dict \<Rightarrow> dict" where
  "prefill word langs =
     foldl (\<lambda>langs j. case obj_get langs j of
                         None \<Rightarrow> langs
                       | Some t \<Rightarrow>
                           (case obj_get t word of
                              None \<Rightarrow> if word \<in> set proto_names then langs
                                      else obj_set langs j (obj_set t word [])
                            | Some v \<Rightarrow> obj_set langs j (obj_set t word v)))
       langs getLanguages"

text \<open>
  The loop over the languages of one entry. \<open>langs[language][word] = translation\<close> is a
  type error when the entry names a language that \<open>langs\<close> does not have, unless the
  name is that of a member of \<open>Object.prototype\<close>: then the write goes to that member.
\<close>

fun words2languages_entry :: "string \<Rightarrow> jobj \<Rightarrow> dict \<Rightarrow> error + dict" where
  "words2languages_entry word [] langs = Inr langs"
| "words2languages_entry word ((lang, translation) # rest) langs =
     (case obj_get langs lang of
        None \<Rightarrow> Inl (if lang \<in> set proto_names then OutsideModel else TypeError)
      | Some t \<Rightarrow>
          words2languages_entry word rest
            (prefill word (obj_set langs lang (obj_set t word translation))))"

text \<open>
  The loop over the entries of the dictionary. The evaluation of a literal yields no
  key \<open>__proto__\<close>; for a dictionary that has one the writes would go through the
  accessor.
\<close>

fun words2languages_data :: "dict \<Rightarrow> dict \<Rightarrow> error + dict" where
  "words2languages_data [] langs = Inr langs"
| "words2languages_data ((word, translations) # rest) langs =
     (if word = ''__proto__'' then Inl OutsideModel
      else (case words2languages_entry word translations langs of
              Inl e \<Rightarrow> Inl e
            | Inr langs' \<Rightarrow> words2languages_data rest langs'))"

text \<open>The object written for one language: its keys in sorted order.\<close>

definition sorted_obj :: "jobj \<Rightarrow> jobj" where
  "sorted_obj translations =
     foldl (\<lambda>obj key. case obj_get translations key of
                         None \<Rightarrow> obj
                       | Some v \<Rightarrow> obj_set obj key v)
       [] (sort (keys translations))"

fun words2languages_write :: "file_pattern \<Rightarrow> string \<Rightarrow> dict \<Rightarrow> world \<Rightarrow> world" where
  "words2languages_write filePattern i18nBase [] w = w"
| "words2languages_write filePattern i18nBase ((lang, translations) # rest) w =
     words2languages_write filePattern i18nBase rest
       (writeJson (replace_lang filePattern i18nBase lang) (sorted_obj translations) w)"

definition adminWords2languages :: "string \<Rightarrow> world \<Rightarrow> (error + unit) \<times> world" where
  "adminWords2languages i18nBase w =
     (case createFilePattern i18nBase of
        Inl e \<Rightarrow> (Inl e, w)
      | Inr filePattern \<Rightarrow>
         (case wordsFile w of
            None \<Rightarrow> (Inl IOError, w)
          | Some ws \<Rightarrow>
             (case parseWordJs ws of
                None \<Rightarrow> (Inl OutsideModel, w)
              | Some data \<Rightarrow>
                 (case words2languages_data data (createEmptyLangObject []) of
                    Inl e \<Rightarrow> (Inl e, w)
                  | Inr langs \<Rightarrow>
                      (Inr (), words2languages_write filePattern i18nBase langs w)))))"

subsection \<open>adminLanguages2words\<close>

text \<open>
  \<open>newWords[key] = newWords[key] || createEmptyLangObject(() => "");
      newWords[key][lang] = translations[key]\<close>

  For a key named like a function of \<open>Object.prototype\<close> that \<open>newWords\<close> lacks, the left
  operand of \<open>||\<close> is that inherited function: it becomes the value of the key, and the
  language is written onto the function. The entry of such a key is the function,
  given here by its own enumerable properties, which are the languages written so
  far. For the key \<open>__proto__\<close> the language is written onto \<open>Object.prototype\<close> itself
  and is from then on inherited by every object.
\<close>

definition languages2words_key :: "string \<Rightarrow> dict \<Rightarrow> string \<times> string \<Rightarrow> error + dict" where
  "languages2words_key lang newWords = (\<lambda>(key, v).
     if key = ''__proto__'' then Inl OutsideModel
     else Inr (obj_set newWords key
       (obj_set (case obj_get newWords key of
                   None \<Rightarrow> if key \<in> set proto_names then [] else createEmptyLangObject []
                 | Some entry \<Rightarrow> entry) lang v)))"

text \<open>The loop over the keys of one language file.\<close>

fun languages2words_keys :: "string \<Rightarrow> jobj \<Rightarrow> dict \<Rightarrow> error + dict" where
  "languages2words_keys lang [] newWords = Inr newWords"
| "languages2words_keys lang (kv # rest) newWords =
     (case languages2words_key lang newWords kv of
        Inl e \<Rightarrow> Inl e
      | Inr newWords' \<Rightarrow> languages2words_keys lang rest newWords')"

fun languages2words_files ::
  "file_pattern \<Rightarrow> string list \<Rightarrow> dict \<Rightarrow> world \<Rightarrow> error + dict" where
  "languages2words_files filePattern [] newWords w = Inr newWords"
| "languages2words_files filePattern (file # rest) newWords w =
     (case match_lang filePattern file of
        None \<Rightarrow> languages2words_files filePattern rest newWords w
      | Some lang \<Rightarrow>
         (case readJson file w of
            None \<Rightarrow> Inl IOError
          | Some translations \<Rightarrow>
             (case languages2words_keys lang translations newWords of
                Inl e \<Rightarrow> Inl e
              | Inr newWords' \<Rightarrow> languages2words_files filePattern rest newWords' w)))"

text \<open>
  The texts of the two warnings, as they are handed to the colouring function
  \<open>yellow\<close> of \<open>console.warn(yellow(...))\<close>.
\<close>

definition take_warning :: "string \<Rightarrow> string" where
  "take_warning key = ''Take from current words.js: '' @ key"

definition missing_warning :: "string \<Rightarrow> string \<Rightarrow> string" where
  "missing_warning lang key = ''Missing '' @ [dquote] @ lang @ [dquote] @ '': '' @ key"

text \<open>
  The merge with the existing words (the body of the \<open>try\<close> block after the parse). The
  test \<open>!newWords[key]\<close> sees inherited members: for an old key named like a member of
  \<open>Object.prototype\<close> that \<open>newWords\<close> lacks, the old entry is not taken over, and
  \<open>newWords[key][lang]\<close> is then looked up in that member, which has no language unless
  the first loop has written one (and then \<open>newWords\<close> has the key).
\<close>

fun languages2words_merge :: "dict \<Rightarrow> dict \<Rightarrow> world \<Rightarrow> dict \<times> world" where
  "languages2words_merge [] newWords w = (newWords, w)"
| "languages2words_merge ((key, translations) # rest) newWords w =
     (let (newWords', w') =
            (if obj_get newWords key = None \<and> key \<notin> set proto_names
             then (obj_set newWords key translations, console_warn (take_warning key) w)
             else (newWords, w));
          entry = (case obj_get newWords' key of None \<Rightarrow> [] | Some e \<Rightarrow> e);
          w'' = foldl (\<lambda>w lang. console_warn (missing_warning lang key) w) w'
                  (filter (\<lambda>lang. falsy (obj_get entry lang)) getLanguages)
      in languages2words_merge rest newWords' w'')"

text \<open>
  The dictionary after the \<open>try\<close> block. A words asset that cannot be read leaves the
  new words as they are (the \<open>catch\<close> block). For an asset outside the modelled grammar
  the model does not tell whether JavaScript throws, which would leave the new words
  as they are too, or evaluates the text.
\<close>

definition languages2words_existing :: "dict \<Rightarrow> world \<Rightarrow> error + dict \<times> world" where
  "languages2words_existing newWords w =
     (case wordsFile w of
        None \<Rightarrow> Inr (newWords, w)
      | Some ws \<Rightarrow>
         (case parseWordJs ws of
            None \<Rightarrow> Inl OutsideModel
          | Some existingWords \<Rightarrow> Inr (languages2words_merge existingWords newWords w)))"

definition adminLanguages2words ::
  "string \<Rightarrow> string \<Rightarrow> string \<Rightarrow> world \<Rightarrow> (error + unit) \<times> world" where
  "adminLanguages2words eol admin i18nBase w =
     (case createFilePattern i18nBase of
        Inl e \<Rightarrow> (Inl e, w)
      | Inr filePattern \<Rightarrow>
         (case findAllLanguageFiles admin i18nBase w of
            Inl e \<Rightarrow> (Inl e, w)
          | Inr fs \<Rightarrow>
             (case languages2words_files filePattern fs [] w of
                Inl e \<Rightarrow> (Inl e, w)
              | Inr newWords \<Rightarrow>
                 (case languages2words_existing newWords w of
                    Inl e \<Rightarrow> (Inl e, w)
                  | Inr (final, w') \<Rightarrow>
                      (Inr (), w'\<lparr>wordsFile := Some (createWordsJs eol final)\<rparr>)))))"

section \<open>Example inputs\<close>

text \<open>A translation capability that always succeeds and marks the target language.\<close>

definition example_tr :: translator where
  "example_tr text lang = Some (lang @ '':'' @ text)"

definition empty_world :: world where
  "empty_world = \<lparr>files = [], wordsFile = None, calls = [], warnings = []\<rparr>"

definition example_base :: string where
  "example_base = ''/admin/i18n/en/translations.json''"





text \<open>
  An English file with one key, and a words asset whose only key is \<open>constructor\<close>; the
  dictionary built from the file, and the warnings of \<open>adminLanguages2words\<close>.
\<close>

definition proto_words :: string where
  "proto_words =
     createWordsJs [CHR 0x0A] [(''constructor'', [(''en'', ''Old''), (''de'', ''Alt'')])]"

definition proto_world :: world where
  "proto_world =
     \<lparr>files = [(''/admin/i18n/en/translations.json'', [(''hello'', ''Hello'')])],
      wordsFile = Some proto_words, calls = [], warnings = []\<rparr>"

definition proto_newWords :: dict where
  "proto_newWords =
     [(''hello'', [(''en'', ''Hello''), (''de'', []),
        (''ru'', []), (''pt'', []), (''nl'', []), (''fr'', []), (''it'', []), (''es'', []), (''pl'', []), (''zh-cn'', [])])]"

definition proto_warnings :: "string list" where
  "proto_warnings =
     [''Missing '' @ [CHR 0x22] @ ''en'' @ [CHR 0x22] @ '': constructor'',
      ''Missing '' @ [CHR 0x22] @ ''de'' @ [CHR 0x22] @ '': constructor'',
      ''Missing '' @ [CHR 0x22] @ ''ru'' @ [CHR 0x22] @ '': constructor'',
      ''Missing '' @ [CHR 0x22] @ ''pt'' @ [CHR 0x22] @ '': constructor'',
      ''Missing '' @ [CHR 0x22] @ ''nl'' @ [CHR 0x22] @ '': constructor'',
      ''Missing '' @ [CHR 0x22] @ ''fr'' @ [CHR 0x22] @ '': constructor'',
      ''Missing '' @ [CHR 0x22] @ ''it'' @ [CHR 0x22] @ '': constructor'',
      ''Missing '' @ [CHR 0x22] @ ''es'' @ [CHR 0x22] @ '': constructor'',
      ''Missing '' @ [CHR 0x22] @ ''pl'' @ [CHR 0x22] @ '': constructor'',
      ''Missing '' @ [CHR 0x22] @ ''zh-cn'' @ [CHR 0x22] @ '': constructor'']"

text \<open>A words asset in which the key \<open>ghost\<close> has an empty entry.\<close>

definition ghost_world :: world where
  "ghost_world =
     \<lparr>files = [],
      wordsFile = Some (createWordsJs [CHR 0x0A] [(''hello'', [(''en'', ''Hello'')]), (''ghost'', [])]),
      calls = [], warnings = []\<rparr>"

text \<open>An English base file that lies outside the admin directory.\<close>

definition outside_world :: world where
  "outside_world =
     \<lparr>files = [(''/proj/src/i18n/en.json'', [(''hello'', ''Hello'')])],
      wordsFile = None, calls = [], warnings = []\<rparr>"



text \<open>
  An admin directory whose own path has an \<open>en\<close> between non-word characters, and the
  world after \<open>translateI18n\<close> has run once on it.
\<close>

definition en_admin_world :: world where
  "en_admin_world =
     \<lparr>files = [(''/en/admin/i18n/en.json'', [(''hello'', ''Hello'')])],
      wordsFile = None, calls = [], warnings = []\<rparr>"

definition en_admin_world1 :: world where
  "en_admin_world1 =
     \<lparr>files =
       [(''/en/admin/i18n/en.json'', [(''hello'', ''Hello'')]),
        (''/de/admin/i18n/en.json'', [(''hello'', ''de:Hello'')]),
        (''/ru/admin/i18n/en.json'', [(''hello'', ''ru:Hello'')]),
        (''/pt/admin/i18n/en.json'', [(''hello'', ''pt:Hello'')]),
        (''/nl/admin/i18n/en.json'', [(''hello'', ''nl:Hello'')]),
        (''/fr/admin/i18n/en.json'', [(''hello'', ''fr:Hello'')]),
        (''/it/admin/i18n/en.json'', [(''hello'', ''it:Hello'')]),
        (''/es/admin/i18n/en.json'', [(''hello'', ''es:Hello'')]),
        (''/pl/admin/i18n/en.json'', [(''hello'', ''pl:Hello'')]),
        (''/zh-cn/admin/i18n/en.json'', [(''hello'', ''zh-cn:Hello'')])],
      wordsFile = None,
      calls =
        [(''Hello'', ''de''), (''Hello'', ''ru''), (''Hello'', ''pt''),
         (''Hello'', ''nl''), (''Hello'', ''fr''), (''Hello'', ''it''),
         (''Hello'', ''es''), (''Hello'', ''pl''), (''Hello'', ''zh-cn'')],
      warnings = []\<rparr>"

section \<open>The claims' own notions\<close>

text \<open>
  The previously existing dictionary: what the words asset evaluates to, and nothing
  when there is no asset. The theorems use it for the runs that the model covers,
  where the asset is missing or within the modelled grammar.
\<close>

definition existing_words :: "world \<Rightarrow> dict" where
  "existing_words w =
     (case wordsFile w of
        None \<Rightarrow> []
      | Some ws \<Rightarrow> (case parseWordJs ws of None \<Rightarrow> [] | Some d \<Rightarrow> d))"

text \<open>The claim's words: a literal \<open>en\<close> with a non-word character on both sides.\<close>

definition has_en_token :: "string \<Rightarrow> bool" where
  "has_en_token f =
     (\<exists>p a b s. f = p @ [a] @ ''en'' @ [b] @ s \<and> \<not> is_word a \<and> \<not> is_word b)"

text \<open>Control characters (ASCII).\<close>

definition is_control :: "char \<Rightarrow> bool" where
  "is_control c = (c < CHR 0x20 \<or> c = CHR 0x7F)"

section \<open>Auxiliary notions for the proofs\<close>

text \<open>
  The test \<open>!newWords[key]\<close> of the merge, and the value \<open>newWords[key]\<close> as an entry: an
  inherited member has no language.
\<close>

definition taken_over :: "dict \<Rightarrow> string \<Rightarrow> bool" where
  "taken_over newWords key = (obj_get newWords key = None \<and> key \<notin> set proto_names)"

definition entry_of :: "dict \<Rightarrow> string \<Rightarrow> jobj" where
  "entry_of newWords key = (case obj_get newWords key of None \<Rightarrow> [] | Some e \<Rightarrow> e)"

text \<open>No language of \<open>langs\<close> has the key \<open>word\<close>.\<close>

definition lacks :: "string \<Rightarrow> dict \<Rightarrow> bool" where
  "lacks word langs = (\<forall>j t. obj_get langs j = Some t \<longrightarrow> word \<notin> set (keys t))"

text \<open>
  The loop of \<open>translateI18nJson\<close> without the world: the filled content (\<open>None\<close> when a
  translation fails) and the invocations it makes. The loop is proved equal to them
  (\<open>translateI18nJson_loop_fill\<close>).
\<close>

fun fill :: "translator \<Rightarrow> string \<Rightarrow> jobj \<Rightarrow> jobj \<Rightarrow> jobj option" where
  "fill tr lang [] content = Some content"
| "fill tr lang ((t, base) # rest) content =
     (if js_falsy content t
      then (case tr base lang of
              None \<Rightarrow> None
            | Some r \<Rightarrow> fill tr lang rest (obj_set content t r))
      else fill tr lang rest content)"




section \<open>FilePatternDeriver: properties\<close>

lemma match_WenW_iff_token: "match_WenW f = has_en_token f"
proof (induction f rule: match_WenW.induct)
  case (1 a e n b rest)
  show ?case
  proof
    assume m: "match_WenW (a # e # n # b # rest)"
    show "has_en_token (a # e # n # b # rest)"
    proof (cases "\<not> is_word a \<and> e = CHR ''e'' \<and> n = CHR ''n'' \<and> \<not> is_word b")
      case True
      then have "a # e # n # b # rest = [] @ [a] @ ''en'' @ [b] @ rest" by simp
      with True show ?thesis unfolding has_en_token_def by blast
    next
      case False
      with m 1 have "has_en_token (e # n # b # rest)" by auto
      then obtain p a' b' s where
        eq: "e # n # b # rest = p @ [a'] @ ''en'' @ [b'] @ s" and w: "\<not> is_word a'" "\<not> is_word b'"
        unfolding has_en_token_def by blast
      from eq have "a # e # n # b # rest = (a # p) @ [a'] @ ''en'' @ [b'] @ s" by simp
      with w show ?thesis unfolding has_en_token_def by blast
    qed
  next
    assume "has_en_token (a # e # n # b # rest)"
    then obtain p a' b' s where
      eq: "a # e # n # b # rest = p @ [a'] @ ''en'' @ [b'] @ s" and w: "\<not> is_word a'" "\<not> is_word b'"
      unfolding has_en_token_def by blast
    show "match_WenW (a # e # n # b # rest)"
    proof (cases p)
      case Nil
      with eq w show ?thesis by simp
    next
      case (Cons x p')
      with eq have "e # n # b # rest = p' @ [a'] @ ''en'' @ [b'] @ s" by simp
      with w have "has_en_token (e # n # b # rest)" unfolding has_en_token_def by blast
      with 1 show ?thesis by simp
    qed
  qed
qed (simp_all add: has_en_token_def)

text \<open>
  C9. \<open>createFilePattern\<close> fails with the format error exactly for the file names
  that hold no \<open>en\<close> bounded on both sides by non-word characters, and yields a
  pattern for every file name that holds one.
\<close>

theorem C9_createFilePattern_error_iff:
  "(createFilePattern f = Inl FormatError) = (\<not> has_en_token f) \<and>
   (\<exists>r. createFilePattern f = (if has_en_token f then Inr r else Inl FormatError))"
  by (simp add: createFilePattern_def match_WenW_iff_token)

theorem C9_witness:
  "createFilePattern ''/admin/i18n/en/translations.json''
     = Inr (Pattern ''/admin/i18n/'' ''/translations.json'') \<and>
   has_en_token ''/admin/i18n/en/translations.json'' \<and>
   createFilePattern ''en.json'' = Inl FormatError \<and> \<not> has_en_token ''en.json''"
proof -
  have a: "createFilePattern ''/admin/i18n/en/translations.json''
     = Inr (Pattern ''/admin/i18n/'' ''/translations.json'')"
    by (simp add: createFilePattern_def is_word_def)
  have b: "createFilePattern ''en.json'' = Inl FormatError"
    by (simp add: createFilePattern_def is_word_def)
  from a b C9_createFilePattern_error_iff [of "''/admin/i18n/en/translations.json''"]
    C9_createFilePattern_error_iff [of "''en.json''"]
  show ?thesis by simp
qed

section \<open>Objects\<close>

lemma obj_get_obj_set: "obj_get (obj_set obj k v) k' = (if k' = k then Some v else obj_get obj k')"
  by (induction obj) (auto simp: obj_get_def)

lemma obj_get_Nil: "obj_get [] k = None"
  by (simp add: obj_get_def)

lemma obj_get_Cons: "obj_get ((k, v) # rest) k' = (if k' = k then Some v else obj_get rest k')"
  by (simp add: obj_get_def)

lemma in_keys_iff: "(k \<in> set (keys obj)) = (obj_get obj k \<noteq> None)"
  by (simp add: obj_get_def keys_def map_of_eq_None_iff)

lemma in_keys_obj_set: "(k' \<in> set (keys (obj_set obj k v))) = (k' = k \<or> k' \<in> set (keys obj))"
  by (simp add: in_keys_iff obj_get_obj_set)


lemma keys_createEmptyLangObject: "keys (createEmptyLangObject d) = getLanguages"
  by (simp add: createEmptyLangObject_def getLanguages_def keys_def)

lemma foldl_invariant:
  "P s \<Longrightarrow> (\<And>s x. P s \<Longrightarrow> x \<in> set xs \<Longrightarrow> P (f s x)) \<Longrightarrow> P (foldl f s xs)"
  by (induction xs arbitrary: s) simp_all

lemma keys_obj_set_present: "k \<in> set (keys obj) \<Longrightarrow> keys (obj_set obj k v) = keys obj"
  by (induction obj) (force simp: keys_def)+

lemma obj_set_distinct: "distinct (keys obj) \<Longrightarrow> distinct (keys (obj_set obj k v))"
proof (induction obj)
  case Nil
  then show ?case by (simp add: keys_def)
next
  case (Cons a obj)
  obtain k' v' where a: "a = (k', v')" by (cases a)
  from Cons.prems have d: "distinct (keys obj)" and n: "k' \<notin> set (keys obj)"
    by (simp_all add: a keys_def)
  show ?case
  proof (cases "k' = k")
    case True
    with Cons.prems show ?thesis by (simp add: a keys_def)
  next
    case False
    have "k' \<notin> set (keys (obj_set obj k v))" using n False by (simp add: in_keys_obj_set)
    moreover have "distinct (keys (obj_set obj k v))" using Cons.IH[OF d] .
    ultimately show ?thesis using False by (simp add: a keys_def)
  qed
qed

lemma readJson_writeJson:
  "readJson f (writeJson g c w) = (if f = g then Some c else readJson f w)"
  by (simp add: readJson_def writeJson_def obj_get_obj_set)

section \<open>translateNotExisting: properties\<close>

lemma translateNotExisting_loop_result:
  "distinct langs \<Longrightarrow> translateNotExisting_loop tr text langs obj w = (Inr obj', w') \<Longrightarrow>
     (\<forall>k. obj_get obj' k =
        (if k \<in> set langs \<and> falsy (obj_get obj k) then tr text k else obj_get obj k)) \<and>
     calls w' = calls w @ map (\<lambda>l. (text, l)) (filter (\<lambda>l. falsy (obj_get obj l)) langs) \<and>
     files w' = files w \<and> wordsFile w' = wordsFile w \<and> warnings w' = warnings w"
proof (induction langs arbitrary: obj w)
  case Nil
  then show ?case by simp
next
  case (Cons lang rest)
  show ?case
  proof (cases "falsy (obj_get obj lang)")
    case False
    with Cons.prems have run: "translateNotExisting_loop tr text rest obj w = (Inr obj', w')"
      by simp
    from Cons.prems have d: "distinct rest" by simp
    from Cons.IH[OF d run] False show ?thesis by auto
  next
    case True
    let ?w1 = "w\<lparr>calls := calls w @ [(text, lang)]\<rparr>"
    from True Cons.prems obtain r where r: "tr text lang = Some r"
      and run: "translateNotExisting_loop tr text rest (obj_set obj lang r) ?w1 = (Inr obj', w')"
      by (auto simp: translateText_def split: option.splits)
    from Cons.prems have d: "distinct rest" and nin: "lang \<notin> set rest" by simp_all
    have f: "filter (\<lambda>l. falsy (obj_get (obj_set obj lang r) l)) rest
               = filter (\<lambda>l. falsy (obj_get obj l)) rest"
      using nin by (intro filter_cong) (auto simp: obj_get_obj_set)
    from Cons.IH[OF d run] have
      g: "\<forall>k. obj_get obj' k = (if k \<in> set rest \<and> falsy (obj_get (obj_set obj lang r) k)
                                    then tr text k else obj_get (obj_set obj lang r) k)"
      and c: "calls w' = calls ?w1
                @ map (\<lambda>l. (text, l)) (filter (\<lambda>l. falsy (obj_get (obj_set obj lang r) l)) rest)"
      and o: "files w' = files ?w1" "wordsFile w' = wordsFile ?w1" "warnings w' = warnings ?w1"
      by simp_all
    from g True r nin have "\<forall>k. obj_get obj' k =
        (if k \<in> set (lang # rest) \<and> falsy (obj_get obj k) then tr text k else obj_get obj k)"
      by (auto simp: obj_get_obj_set)
    moreover from c f True have "calls w' = calls w @
        map (\<lambda>l. (text, l)) (filter (\<lambda>l. falsy (obj_get obj l)) (lang # rest))"
      by simp
    ultimately show ?thesis using o by simp
  qed
qed

lemma translateNotExisting_loop_total:
  "\<forall>l\<in>set langs. tr text l \<noteq> None \<Longrightarrow>
     \<exists>obj' w'. translateNotExisting_loop tr text langs obj w = (Inr obj', w')"
  by (induction langs arbitrary: obj w) (auto simp: translateText_def split: option.splits)

lemma distinct_getLanguages: "distinct getLanguages"
  by (simp add: getLanguages_def)

text \<open>
  C1 (as the code has it). With \<open>text\<close> the English value or else the fallback:
  when \<open>text\<close> is empty or absent nothing happens at all; otherwise a run that
  completes stores the translation of \<open>text\<close> exactly for the language codes of
  LanguageSet whose value is missing or empty, \<open>en\<close> among them, leaves every other
  value as it was, and invokes the capability exactly for those codes, in the order
  of LanguageSet. The capability is therefore invoked with target \<open>en\<close> exactly when
  the English value is missing or empty and the fallback supplies the text. The run
  completes whenever the capability does not fail.
\<close>

theorem C1_translateNotExisting:
  "(source_text obj baseText = None \<longrightarrow>
      translateNotExisting tr obj baseText w = (Inr obj, w)) \<and>
   (\<forall>text. source_text obj baseText = Some text \<longrightarrow>
      ((\<forall>l\<in>set getLanguages. tr text l \<noteq> None) \<longrightarrow>
         (\<exists>obj' w'. translateNotExisting tr obj baseText w = (Inr obj', w'))) \<and>
      (\<forall>obj' w'. translateNotExisting tr obj baseText w = (Inr obj', w') \<longrightarrow>
         (\<forall>lang. obj_get obj' lang =
            (if lang \<in> set getLanguages \<and> falsy (obj_get obj lang)
             then tr text lang else obj_get obj lang)) \<and>
         calls w' = calls w @
            map (\<lambda>l. (text, l)) (filter (\<lambda>l. falsy (obj_get obj l)) getLanguages) \<and>
         ((text, ''en'') \<in> set (drop (length (calls w)) (calls w'))
            = falsy (obj_get obj ''en'')) \<and>
         files w' = files w \<and> wordsFile w' = wordsFile w \<and> warnings w' = warnings w))"
proof (intro conjI allI impI)
  assume "source_text obj baseText = None"
  then show "translateNotExisting tr obj baseText w = (Inr obj, w)"
    by (simp add: translateNotExisting_def)
next
  fix txt0
  assume t: "source_text obj baseText = Some txt0"
    and ok: "\<forall>l\<in>set getLanguages. tr txt0 l \<noteq> None"
  from ok have "\<exists>obj' w'. translateNotExisting_loop tr txt0 getLanguages obj w = (Inr obj', w')"
    by (rule translateNotExisting_loop_total)
  with t show "\<exists>obj' w'. translateNotExisting tr obj baseText w = (Inr obj', w')"
    by (simp add: translateNotExisting_def)
next
  fix txt0 obj' w'
  assume t: "source_text obj baseText = Some txt0"
    and run: "translateNotExisting tr obj baseText w = (Inr obj', w')"
  from t run have loop: "translateNotExisting_loop tr txt0 getLanguages obj w = (Inr obj', w')"
    by (simp add: translateNotExisting_def)
  note res = translateNotExisting_loop_result[OF distinct_getLanguages loop]
  from res show "obj_get obj' lang =
      (if lang \<in> set getLanguages \<and> falsy (obj_get obj lang)
       then tr txt0 lang else obj_get obj lang)" for lang
    by blast
  from res show c: "calls w' = calls w @
      map (\<lambda>l. (txt0, l)) (filter (\<lambda>l. falsy (obj_get obj l)) getLanguages)"
    by blast
  have "''en'' \<in> set getLanguages" by (simp add: getLanguages_def)
  with c show "((txt0, ''en'') \<in> set (drop (length (calls w)) (calls w')))
      = falsy (obj_get obj ''en'')"
    by auto
  from res show "files w' = files w" "wordsFile w' = wordsFile w" "warnings w' = warnings w"
    by blast+
qed

theorem C1_witness:
  "source_text [(''en'', ''Title''), (''de'', ''Titel'')] None = Some ''Title'' \<and>
   (\<exists>obj' w'. translateNotExisting example_tr [(''en'', ''Title''), (''de'', ''Titel'')] None
                  empty_world = (Inr obj', w') \<and>
      obj_get obj' ''en'' = Some ''Title'' \<and> obj_get obj' ''de'' = Some ''Titel'' \<and>
      obj_get obj' ''ru'' = Some ''ru:Title'' \<and>
      calls w' = [(''Title'', ''ru''), (''Title'', ''pt''), (''Title'', ''nl''),
                  (''Title'', ''fr''), (''Title'', ''it''), (''Title'', ''es''),
                  (''Title'', ''pl''), (''Title'', ''zh-cn'')]) \<and>
   source_text [(''de'', ''Titel'')] None = None \<and>
   translateNotExisting example_tr [(''de'', ''Titel'')] None empty_world
     = (Inr [(''de'', ''Titel'')], empty_world)"
proof -
  let ?obj = "[(''en'', ''Title''), (''de'', ''Titel'')]"
  note c1 = C1_translateNotExisting[of ?obj None example_tr empty_world]
  note c2 = C1_translateNotExisting[of "[(''de'', ''Titel'')]" None example_tr empty_world]
  have st: "source_text ?obj None = Some ''Title''"
    by (simp add: source_text_def falsy_def obj_get_def)
  have ok: "\<forall>l\<in>set getLanguages. example_tr ''Title'' l \<noteq> None"
    by (simp add: example_tr_def)
  from c1 st ok obtain obj' w' where
    run: "translateNotExisting example_tr ?obj None empty_world = (Inr obj', w')"
    by blast
  from c1 st run have
    g: "\<forall>lang. obj_get obj' lang =
          (if lang \<in> set getLanguages \<and> falsy (obj_get ?obj lang)
           then example_tr ''Title'' lang else obj_get ?obj lang)"
    and c: "calls w' = calls empty_world @
          map (\<lambda>l. (''Title'', l)) (filter (\<lambda>l. falsy (obj_get ?obj l)) getLanguages)"
    by blast+
  from g have "obj_get obj' ''en'' = Some ''Title''" "obj_get obj' ''de'' = Some ''Titel''"
    "obj_get obj' ''ru'' = Some ''ru:Title''"
    by (simp_all add: getLanguages_def falsy_def obj_get_def example_tr_def)
  moreover from c have "calls w' = [(''Title'', ''ru''), (''Title'', ''pt''), (''Title'', ''nl''),
                  (''Title'', ''fr''), (''Title'', ''it''), (''Title'', ''es''),
                  (''Title'', ''pl''), (''Title'', ''zh-cn'')]"
    by (simp add: getLanguages_def falsy_def obj_get_def empty_world_def)
  moreover have sn: "source_text [(''de'', ''Titel'')] None = None"
    by (simp add: source_text_def falsy_def obj_get_def)
  moreover from c2 sn have "translateNotExisting example_tr [(''de'', ''Titel'')] None empty_world
     = (Inr [(''de'', ''Titel'')], empty_world)"
    by blast
  ultimately show ?thesis using st run by blast
qed

text \<open>
  The claim as stated fails: with no English value and the fallback text \<open>Title\<close>, the
  capability is invoked with target \<open>en\<close> and its result becomes the English value.
\<close>

theorem C1_counterexample:
  "translateNotExisting example_tr [(''de'', ''Titel'')] (Some ''Title'') empty_world
     = (Inr [(''de'', ''Titel''), (''en'', ''en:Title''), (''ru'', ''ru:Title''),
             (''pt'', ''pt:Title''), (''nl'', ''nl:Title''), (''fr'', ''fr:Title''),
             (''it'', ''it:Title''), (''es'', ''es:Title''), (''pl'', ''pl:Title''),
             (''zh-cn'', ''zh-cn:Title'')],
        empty_world\<lparr>calls := [(''Title'', ''en''), (''Title'', ''ru''), (''Title'', ''pt''),
             (''Title'', ''nl''), (''Title'', ''fr''), (''Title'', ''it''),
             (''Title'', ''es''), (''Title'', ''pl''), (''Title'', ''zh-cn'')]\<rparr>) \<and>
   (''Title'', ''en'') \<in> set (calls (snd
      (translateNotExisting example_tr [(''de'', ''Titel'')] (Some ''Title'') empty_world))) \<and>
   obj_get [(''de'', ''Titel'')] ''en'' = None"
  by (simp add: translateNotExisting_def source_text_def falsy_def obj_get_def getLanguages_def
      translateText_def example_tr_def empty_world_def)

section \<open>adminLanguages2words: properties\<close>

lemma console_warn_fields:
  "files (console_warn l w) = files w" "calls (console_warn l w) = calls w"
  "wordsFile (console_warn l w) = wordsFile w" "warnings (console_warn l w) = warnings w @ [l]"
  by (simp_all add: console_warn_def)

lemma foldl_console_warn_fields:
  "files (foldl (\<lambda>w l. console_warn (f l) w) w ls) = files w"
  "calls (foldl (\<lambda>w l. console_warn (f l) w) w ls) = calls w"
  "wordsFile (foldl (\<lambda>w l. console_warn (f l) w) w ls) = wordsFile w"
  "warnings (foldl (\<lambda>w l. console_warn (f l) w) w ls) = warnings w @ map f ls"
  by (induction ls arbitrary: w) (simp_all add: console_warn_fields)

text \<open>One round of the merge loop, with the two cases of the test sorted out.\<close>

lemma merge_step:
  "languages2words_merge ((key, trs) # rest) newWords w =
     languages2words_merge rest
       (if taken_over newWords key then obj_set newWords key trs else newWords)
       (foldl (\<lambda>w lang. console_warn (missing_warning lang key) w)
          (if taken_over newWords key then console_warn (take_warning key) w else w)
          (filter (\<lambda>lang. falsy (obj_get
               (entry_of (if taken_over newWords key then obj_set newWords key trs else newWords)
                  key) lang)) getLanguages))"
  by (simp add: taken_over_def entry_of_def)

lemma merge_get:
  "languages2words_merge existing newWords w = (final, w') \<Longrightarrow>
   obj_get final k = (case obj_get newWords k of
                        None \<Rightarrow> if k \<in> set proto_names then None else obj_get existing k
                      | Some e \<Rightarrow> Some e)"
proof (induction existing arbitrary: newWords w)
  case Nil
  then show ?case by (simp add: obj_get_Nil split: option.splits)
next
  case (Cons a rest)
  obtain key trs where a: "a = (key, trs)" by (cases a)
  define nw where "nw = (if taken_over newWords key then obj_set newWords key trs else newWords)"
  from Cons.prems[unfolded a merge_step] have
    "obj_get final k =
       (case obj_get nw k of
          None \<Rightarrow> if k \<in> set proto_names then None else obj_get rest k
        | Some e \<Rightarrow> Some e)"
    unfolding nw_def by (rule Cons.IH)
  then show ?case unfolding a nw_def
    by (cases "obj_get newWords key")
       (auto simp: taken_over_def obj_get_obj_set obj_get_Cons split: option.splits)
qed


text \<open>
  The warnings of the merge, in order: for each old entry the note that it is taken
  over (when it is) and one line per language without a value in the key's entry.
\<close>

lemma merge_warnings:
  "languages2words_merge existing newWords w = (final, w') \<Longrightarrow>
   \<exists>ws. warnings w' = warnings w @ ws \<and>
     (\<forall>line\<in>set ws. \<exists>key\<in>set (keys existing).
         (line = take_warning key \<and> taken_over newWords key) \<or>
         (\<exists>lang\<in>set getLanguages. line = missing_warning lang key
             \<and> falsy (obj_get (entry_of final key) lang))) \<and>
     (\<forall>key\<in>set (keys existing).
         (taken_over newWords key \<longrightarrow> take_warning key \<in> set ws) \<and>
         (\<forall>lang\<in>set getLanguages. falsy (obj_get (entry_of final key) lang)
             \<longrightarrow> missing_warning lang key \<in> set ws))"
proof (induction existing arbitrary: newWords w)
  case Nil
  then show ?case by (simp add: keys_def)
next
  case (Cons a rest)
  obtain key trs where a: "a = (key, trs)" by (cases a)
  define nw where "nw = (if taken_over newWords key then obj_set newWords key trs else newWords)"
  define entry where "entry = entry_of nw key"
  define w0 where "w0 = (if taken_over newWords key then console_warn (take_warning key) w else w)"
  define miss where "miss = filter (\<lambda>lang. falsy (obj_get entry lang)) getLanguages"
  define w1 where "w1 = foldl (\<lambda>w lang. console_warn (missing_warning lang key) w) w0 miss"
  define tk where "tk = (if taken_over newWords key then [take_warning key] else [])"
  define here where "here = tk @ map (\<lambda>lang. missing_warning lang key) miss"
  from Cons.prems have run: "languages2words_merge rest nw w1 = (final, w')"
    unfolding a merge_step nw_def w1_def w0_def miss_def entry_def .
  from Cons.IH[OF run] obtain ws where
    ws: "warnings w' = warnings w1 @ ws"
    and only: "\<And>line. line \<in> set ws \<Longrightarrow> \<exists>k\<in>set (keys rest).
         (line = take_warning k \<and> taken_over nw k) \<or>
         (\<exists>lang\<in>set getLanguages. line = missing_warning lang k
             \<and> falsy (obj_get (entry_of final k) lang))"
    and all: "\<And>k. k \<in> set (keys rest) \<Longrightarrow>
         (taken_over nw k \<longrightarrow> take_warning k \<in> set ws) \<and>
         (\<forall>lang\<in>set getLanguages. falsy (obj_get (entry_of final k) lang)
             \<longrightarrow> missing_warning lang k \<in> set ws)"
    by blast
  have w0: "warnings w0 = warnings w @ tk"
    unfolding w0_def tk_def by (simp add: console_warn_fields)
  have w1: "warnings w1 = warnings w @ here"
    unfolding w1_def here_def by (simp add: foldl_console_warn_fields w0)
  have nwkey: "obj_get nw key = None \<Longrightarrow> key \<in> set proto_names"
    unfolding nw_def by (auto simp: taken_over_def obj_get_obj_set split: if_splits)
  have "obj_get final key = obj_get nw key"
    using merge_get[OF run, of key] nwkey by (cases "obj_get nw key") simp_all
  then have fin: "entry_of final key = entry"
    unfolding entry_def entry_of_def by simp
  have nw_taken: "taken_over nw k \<Longrightarrow> taken_over newWords k" for k
    unfolding nw_def taken_over_def by (auto simp: obj_get_obj_set split: if_splits)
  have nw_other: "k \<noteq> key \<Longrightarrow> taken_over nw k = taken_over newWords k" for k
    unfolding nw_def taken_over_def by (auto simp: obj_get_obj_set)
  have keys_a: "set (keys (a # rest)) = insert key (set (keys rest))"
    by (simp add: a keys_def)
  have in_tk: "line \<in> set tk \<longleftrightarrow> (line = take_warning key \<and> taken_over newWords key)" for line
    unfolding tk_def by auto
  have in_miss: "lang \<in> set miss \<longleftrightarrow> (lang \<in> set getLanguages \<and> falsy (obj_get entry lang))" for lang
    unfolding miss_def by auto
  have in_here: "line \<in> set here \<longleftrightarrow>
      (line = take_warning key \<and> taken_over newWords key) \<or>
      (\<exists>lang\<in>set getLanguages. line = missing_warning lang key \<and> falsy (obj_get entry lang))" for line
    unfolding here_def using in_tk in_miss by auto
  have tot: "warnings w' = warnings w @ (here @ ws)"
    using ws w1 by simp
  have p1: "\<exists>k\<in>set (keys (a # rest)).
         (line = take_warning k \<and> taken_over newWords k) \<or>
         (\<exists>lang\<in>set getLanguages. line = missing_warning lang k
             \<and> falsy (obj_get (entry_of final k) lang))"
    if "line \<in> set (here @ ws)" for line
  proof (cases "line \<in> set here")
    case True
    with in_here fin show ?thesis unfolding keys_a by blast
  next
    case False
    with that have "line \<in> set ws" by simp
    from only[OF this] obtain k where k: "k \<in> set (keys rest)"
      and d: "(line = take_warning k \<and> taken_over nw k) \<or>
         (\<exists>lang\<in>set getLanguages. line = missing_warning lang k
             \<and> falsy (obj_get (entry_of final k) lang))"
      by blast
    from d nw_taken have "(line = take_warning k \<and> taken_over newWords k) \<or>
         (\<exists>lang\<in>set getLanguages. line = missing_warning lang k
             \<and> falsy (obj_get (entry_of final k) lang))"
      by blast
    with k show ?thesis unfolding keys_a by blast
  qed
  have p2: "(taken_over newWords k \<longrightarrow> take_warning k \<in> set (here @ ws)) \<and>
         (\<forall>lang\<in>set getLanguages. falsy (obj_get (entry_of final k) lang)
             \<longrightarrow> missing_warning lang k \<in> set (here @ ws))"
    if kin: "k \<in> set (keys (a # rest))" for k
  proof (cases "k = key")
    case True
    show ?thesis unfolding True using in_here fin by auto
  next
    case False
    with kin have "k \<in> set (keys rest)" unfolding keys_a by simp
    from all[OF this] nw_other[OF False] show ?thesis by auto
  qed
  show ?case
  proof (intro exI[of _ "here @ ws"] conjI ballI)
    show "warnings w' = warnings w @ here @ ws" using tot by simp
  next
    fix line assume "line \<in> set (here @ ws)"
    from p1[OF this] show "\<exists>key\<in>set (keys (a # rest)).
         (line = take_warning key \<and> taken_over newWords key) \<or>
         (\<exists>lang\<in>set getLanguages. line = missing_warning lang key
             \<and> falsy (obj_get (entry_of final key) lang))" .
  next
    fix k assume "k \<in> set (keys (a # rest))"
    from p2[OF this] show "taken_over newWords k \<longrightarrow> take_warning k \<in> set (here @ ws)"
      by blast
  next
    fix k lang assume "k \<in> set (keys (a # rest))" "lang \<in> set getLanguages"
    with p2 show "falsy (obj_get (entry_of final k) lang)
        \<longrightarrow> missing_warning lang k \<in> set (here @ ws)"
      by blast
  qed
qed




text \<open>
  A key named like a function of \<open>Object.prototype\<close> holds the languages of the files
  that have it, and no others.
\<close>

lemma languages2words_keys_constructor:
  "languages2words_keys ''de'' [(''constructor'', ''Konstruktor'')] []
     = Inr [(''constructor'', [(''de'', ''Konstruktor'')])]"
  by (simp add: languages2words_key_def proto_names_def obj_get_def)

lemma languages2words_existing_merge:
  "languages2words_existing newWords w = Inr r \<Longrightarrow>
   languages2words_merge (existing_words w) newWords w = r"
  by (auto simp: languages2words_existing_def existing_words_def split: option.splits)

lemma adminLanguages2words_result:
  assumes "createFilePattern i18nBase = Inr filePattern"
    and "findAllLanguageFiles admin i18nBase w = Inr fs"
    and "languages2words_files filePattern fs [] w = Inr newWords"
    and "languages2words_existing newWords w = Inr (final, w1)"
  shows "adminLanguages2words eol admin i18nBase w
           = (Inr (), w1\<lparr>wordsFile := Some (createWordsJs eol final)\<rparr>)"
  using assms by (simp add: adminLanguages2words_def)

text \<open>
  What the reconciliation does for an old key that the new words lack and that is not
  named like a member of \<open>Object.prototype\<close>: the old entry is taken over, and the
  warning that names the key is emitted.
\<close>

lemma old_entry_taken_over:
  assumes "languages2words_existing newWords w = Inr (final, w1)"
    and "obj_get (existing_words w) key = Some entry" and "obj_get newWords key = None"
    and "key \<notin> set proto_names"
  shows "obj_get final key = Some entry \<and>
         ''Take from current words.js: '' @ key \<in> set (warnings w1)"
proof -
  from assms(1) have m: "languages2words_merge (existing_words w) newWords w = (final, w1)"
    by (rule languages2words_existing_merge)
  have kin: "key \<in> set (keys (existing_words w))"
    using assms(2) by (simp add: in_keys_iff)
  from merge_get[OF m, of key] assms(2,3,4) have g: "obj_get final key = Some entry" by simp
  from merge_warnings[OF m] obtain wl where wl: "warnings w1 = warnings w @ wl"
    and al: "\<forall>k\<in>set (keys (existing_words w)).
         (taken_over newWords k \<longrightarrow> take_warning k \<in> set wl) \<and>
         (\<forall>lang\<in>set getLanguages. falsy (obj_get (entry_of final k) lang)
             \<longrightarrow> missing_warning lang k \<in> set wl)"
    by blast
  from al kin assms(3,4) have "take_warning key \<in> set wl" by (simp add: taken_over_def)
  with wl g show ?thesis by (simp add: take_warning_def)
qed

subsection \<open>The example run\<close>

lemma example_pattern:
  "createFilePattern example_base = Inr (Pattern ''/admin/i18n/'' ''/translations.json'')"
  by (simp add: createFilePattern_def example_base_def is_word_def)








subsection \<open>An old key named like a member of Object.prototype\<close>

lemma proto_parse:
  "parseWordJs proto_words = Some [(''constructor'', [(''en'', ''Old''), (''de'', ''Alt'')])]"
  by code_simp

lemma proto_found:
  "findAllLanguageFiles ''/admin'' example_base proto_world
     = Inr [''/admin/i18n/en/translations.json'']"
  by code_simp

lemma proto_built:
  "languages2words_files (Pattern ''/admin/i18n/'' ''/translations.json'')
     [''/admin/i18n/en/translations.json''] [] proto_world = Inr proto_newWords"
  by code_simp

lemma proto_merge:
  "languages2words_merge [(''constructor'', [(''en'', ''Old''), (''de'', ''Alt'')])]
     proto_newWords proto_world
   = (proto_newWords, proto_world\<lparr>warnings := proto_warnings\<rparr>)"
  by code_simp

lemma proto_merged:
  "languages2words_existing proto_newWords proto_world
   = Inr (proto_newWords, proto_world\<lparr>warnings := proto_warnings\<rparr>)"
proof -
  have w: "wordsFile proto_world = Some proto_words"
    by (simp add: proto_world_def)
  show ?thesis
    by (simp only: languages2words_existing_def w option.case proto_parse proto_merge)
qed

subsection \<open>Claims\<close>

text \<open>
  C6. The claim does not hold of the code. The words asset has the key \<open>constructor\<close>,
  which no language file has, so the dictionary built from the files lacks it. The
  test \<open>!newWords[key]\<close> finds the inherited member of that name: the old entry is not
  taken over, the dictionary that is written has no key \<open>constructor\<close>, and the warning
  \<open>Take from current words.js: constructor\<close> is not among the warnings of the run, which
  report every language as missing instead.
\<close>

theorem C6_inherited_member_not_kept:
  "wordsFile proto_world = Some proto_words \<and>
   parseWordJs proto_words = Some [(''constructor'', [(''en'', ''Old''), (''de'', ''Alt'')])] \<and>
   findAllLanguageFiles ''/admin'' example_base proto_world
     = Inr [''/admin/i18n/en/translations.json''] \<and>
   languages2words_files (Pattern ''/admin/i18n/'' ''/translations.json'')
     [''/admin/i18n/en/translations.json''] [] proto_world = Inr proto_newWords \<and>
   obj_get proto_newWords ''constructor'' = None \<and>
   adminLanguages2words [CHR 0x0A] ''/admin'' example_base proto_world
     = (Inr (), proto_world\<lparr>warnings := proto_warnings,
          wordsFile := Some (createWordsJs [CHR 0x0A] proto_newWords)\<rparr>) \<and>
   ''Take from current words.js: constructor'' \<notin> set proto_warnings"
proof -
  have a: "wordsFile proto_world = Some proto_words"
    by (simp add: proto_world_def)
  have b: "obj_get proto_newWords ''constructor'' = None"
    by (simp add: proto_newWords_def obj_get_def)
  have c: "''Take from current words.js: constructor'' \<notin> set proto_warnings"
    by (simp add: proto_warnings_def)
  from adminLanguages2words_result[OF example_pattern proto_found proto_built proto_merged,
      of "[CHR 0x0A]"] a b c proto_parse proto_found proto_built
  show ?thesis by simp
qed







section \<open>parseWordJs: properties\<close>

lemma lit_set_distinct: "distinct (keys obj) \<Longrightarrow> distinct (keys (lit_set obj k v))"
  by (simp add: lit_set_def obj_set_distinct)

lemma parser_distinct:
  "p_top_key d pd ts = Some r \<Longrightarrow> distinct (keys d) \<Longrightarrow> distinct (keys r)"
  "p_top_sep d pd ts = Some r \<Longrightarrow> distinct (keys d) \<Longrightarrow> distinct (keys r)"
  "p_in_key d pd k e pe ts = Some r \<Longrightarrow> distinct (keys d) \<Longrightarrow> distinct (keys r)"
  "p_in_sep d pd k e pe ts = Some r \<Longrightarrow> distinct (keys d) \<Longrightarrow> distinct (keys r)"
  by (induction d pd ts and d pd ts and d pd k e pe ts and d pd k e pe ts
      rule: p_top_key_p_top_sep_p_in_key_p_in_sep.induct)
     (auto simp: lit_set_distinct split: if_splits)

lemma parseWordJs_distinct: "parseWordJs ws = Some data \<Longrightarrow> distinct (keys data)"
proof -
  assume "parseWordJs ws = Some data"
  then obtain ts where "p_top_key [] False ts = Some data"
    by (auto simp: parseWordJs_def eval_literal_def split: option.splits list.splits token.splits)
  from parser_distinct(1)[OF this] show ?thesis by (simp add: keys_def)
qed

lemma distinct_keys_unique:
  "distinct (keys obj) \<Longrightarrow> obj_get obj k = Some v \<Longrightarrow> (k, v') \<in> set obj \<Longrightarrow> v' = v"
  by (simp add: obj_get_def keys_def)

section \<open>adminWords2languages: properties\<close>

lemma createEmptyLangObject_get:
  "obj_get (createEmptyLangObject d) j = Some t \<Longrightarrow> t = d"
  by (simp add: createEmptyLangObject_def getLanguages_def obj_get_def split: if_splits)

lemma lacks_empty: "lacks word (createEmptyLangObject [])"
  unfolding lacks_def
proof (intro allI impI)
  fix j and t :: jobj
  assume "obj_get (createEmptyLangObject []) j = Some t"
  then have "t = []" by (rule createEmptyLangObject_get)
  then show "word \<notin> set (keys t)" by (simp add: keys_def)
qed

lemma lacks_obj_set:
  "lacks word langs \<Longrightarrow> obj_get langs j = Some t \<Longrightarrow> word' \<noteq> word \<Longrightarrow>
   lacks word (obj_set langs j (obj_set t word' v))"
  unfolding lacks_def by (auto simp: obj_get_obj_set in_keys_obj_set)

lemma lacks_prefill: "word' \<noteq> word \<Longrightarrow> lacks word langs \<Longrightarrow> lacks word (prefill word' langs)"
  unfolding prefill_def
  by (rule foldl_invariant) (auto split: option.splits intro: lacks_obj_set)

lemma keys_obj_set_get: "obj_get obj k = Some v0 \<Longrightarrow> keys (obj_set obj k v) = keys obj"
  by (rule keys_obj_set_present) (simp add: in_keys_iff)

lemma keys_prefill: "keys (prefill word langs) = keys langs"
  unfolding prefill_def
  by (rule foldl_invariant[where P = "\<lambda>s. keys s = keys langs"])
     (auto split: option.splits simp: keys_obj_set_get)

lemma words2languages_entry_inv:
  "word' \<noteq> word \<Longrightarrow> lacks word langs \<Longrightarrow>
   words2languages_entry word' trs langs = Inr langs' \<Longrightarrow>
   lacks word langs' \<and> keys langs' = keys langs"
proof (induction trs arbitrary: langs)
  case Nil
  then show ?case by simp
next
  case (Cons a rest)
  obtain lang v where a: "a = (lang, v)" by (cases a)
  from Cons.prems(3) obtain t where t: "obj_get langs lang = Some t"
    and run: "words2languages_entry word' rest
                (prefill word' (obj_set langs lang (obj_set t word' v))) = Inr langs'"
    by (auto simp: a split: option.splits)
  have l: "lacks word (prefill word' (obj_set langs lang (obj_set t word' v)))"
    by (intro lacks_prefill lacks_obj_set Cons.prems(1,2) t)
  have k: "keys (prefill word' (obj_set langs lang (obj_set t word' v))) = keys langs"
    using t by (simp add: keys_prefill keys_obj_set_present in_keys_iff)
  from Cons.IH[OF Cons.prems(1) l run] k show ?case by simp
qed

lemma words2languages_data_inv:
  "\<forall>trs. (word, trs) \<in> set data \<longrightarrow> trs = [] \<Longrightarrow> lacks word langs \<Longrightarrow>
   words2languages_data data langs = Inr langs' \<Longrightarrow>
   lacks word langs' \<and> keys langs' = keys langs"
proof (induction data arbitrary: langs)
  case Nil
  then show ?case by simp
next
  case (Cons a rest)
  obtain word' trs where a: "a = (word', trs)" by (cases a)
  from Cons.prems(3) obtain langs1 where
    e: "words2languages_entry word' trs langs = Inr langs1"
    and run: "words2languages_data rest langs1 = Inr langs'"
    by (auto simp: a split: sum.splits if_splits)
  have l1: "lacks word langs1 \<and> keys langs1 = keys langs"
  proof (cases "word' = word")
    case True
    with Cons.prems(1) a have "trs = []" by simp
    with e Cons.prems(2) show ?thesis by simp
  next
    case False
    from words2languages_entry_inv[OF False Cons.prems(2) e] show ?thesis .
  qed
  from Cons.prems(1) have "\<forall>trs. (word, trs) \<in> set rest \<longrightarrow> trs = []" by simp
  from Cons.IH[OF this _ run] l1 show ?case by simp
qed

lemma keys_sorted_obj: "set (keys (sorted_obj t)) \<subseteq> set (keys t)"
proof -
  define step where "step = (\<lambda>obj key. case obj_get t key of None \<Rightarrow> obj
                                     | Some v \<Rightarrow> obj_set obj key v)"
  have s1: "set (keys (step acc a)) \<subseteq> insert a (set (keys acc))" for acc a
    unfolding step_def by (cases "obj_get t a") (auto simp: in_keys_obj_set)
  have "set (keys (foldl step acc ks)) \<subseteq> set (keys acc) \<union> set ks" for acc ks
  proof (induction ks arbitrary: acc)
    case Nil
    show ?case by simp
  next
    case (Cons a ks)
    from Cons.IH[of "step acc a"] s1[of acc a] show ?case by auto
  qed
  from this[of "[]" "sort (keys t)"] show ?thesis
    by (simp add: sorted_obj_def keys_def step_def)
qed

lemma words2languages_write_preserve:
  "\<forall>(l, t)\<in>set langs. Q (sorted_obj t) \<Longrightarrow>
   \<exists>c. readJson f w = Some c \<and> Q c \<Longrightarrow>
   \<exists>c. readJson f (words2languages_write pat base langs w) = Some c \<and> Q c"
proof (induction langs arbitrary: w)
  case Nil
  then show ?case by simp
next
  case (Cons a rest)
  obtain l t where a: "a = (l, t)" by (cases a)
  from Cons.prems(1) a have q: "Q (sorted_obj t)" and r: "\<forall>(l, t)\<in>set rest. Q (sorted_obj t)"
    by auto
  have "\<exists>c. readJson f (writeJson (replace_lang pat base l) (sorted_obj t) w) = Some c \<and> Q c"
    using Cons.prems(2) q by (simp add: readJson_writeJson)
  from Cons.IH[OF r this] show ?case by (simp add: a)
qed

lemma words2languages_write_all:
  "\<forall>(l, t)\<in>set langs. Q (sorted_obj t) \<Longrightarrow> l \<in> set (keys langs) \<Longrightarrow>
   \<exists>c. readJson (replace_lang pat base l) (words2languages_write pat base langs w) = Some c \<and> Q c"
proof (induction langs arbitrary: w)
  case Nil
  then show ?case by (simp add: keys_def)
next
  case (Cons a rest)
  obtain l' t where a: "a = (l', t)" by (cases a)
  from Cons.prems(1) a have q: "Q (sorted_obj t)" and r: "\<forall>(l, t)\<in>set rest. Q (sorted_obj t)"
    by auto
  show ?case
  proof (cases "l = l'")
    case True
    have "\<exists>c. readJson (replace_lang pat base l)
                 (writeJson (replace_lang pat base l') (sorted_obj t) w) = Some c \<and> Q c"
      using q True by (simp add: readJson_writeJson)
    from words2languages_write_preserve[OF r this] show ?thesis by (simp add: a)
  next
    case False
    with Cons.prems(2) a have "l \<in> set (keys rest)" by (simp add: keys_def)
    from Cons.IH[OF r this] show ?thesis by (simp add: a)
  qed
qed

text \<open>
  C10. In \<open>adminWords2languages\<close>, a key whose entry in the parsed words dictionary is
  the empty mapping reaches none of the per-language files: each language's file, as
  the completed run leaves it, lacks the key.
\<close>

theorem C10_empty_entry_dropped:
  assumes "createFilePattern i18nBase = Inr filePattern"
    and "wordsFile w = Some ws" and "parseWordJs ws = Some data"
    and "obj_get data word = Some []"
    and "adminWords2languages i18nBase w = (Inr (), w')"
  shows "\<forall>lang\<in>set getLanguages. \<exists>content.
           readJson (replace_lang filePattern i18nBase lang) w' = Some content \<and>
           word \<notin> set (keys content)"
proof -
  from assms(1,2,3,5) obtain langs where
    d: "words2languages_data data (createEmptyLangObject []) = Inr langs"
    and w': "w' = words2languages_write filePattern i18nBase langs w"
    by (auto simp: adminWords2languages_def split: sum.splits)
  have u: "\<forall>trs. (word, trs) \<in> set data \<longrightarrow> trs = []"
    using distinct_keys_unique[OF parseWordJs_distinct[OF assms(3)] assms(4)] by blast
  from words2languages_data_inv[OF u lacks_empty d]
  have l: "lacks word langs" and k: "keys langs = getLanguages"
    by (simp_all add: keys_createEmptyLangObject)
  have q: "\<forall>(l, t)\<in>set langs. word \<notin> set (keys (sorted_obj t))"
  proof (clarify)
    fix j t assume jt: "(j, t) \<in> set langs" and "word \<in> set (keys (sorted_obj t))"
    then have wt: "word \<in> set (keys t)" using keys_sorted_obj by blast
    have "distinct (keys langs)" using k distinct_getLanguages by simp
    then have "obj_get langs j = Some t" using jt by (simp add: obj_get_def keys_def)
    with l wt show False unfolding lacks_def by blast
  qed
  show ?thesis
  proof
    fix lang assume "lang \<in> set getLanguages"
    then have "lang \<in> set (keys langs)" using k by simp
    from words2languages_write_all[OF q this] show "\<exists>content.
        readJson (replace_lang filePattern i18nBase lang) w' = Some content \<and>
        word \<notin> set (keys content)"
      unfolding w' .
  qed
qed

theorem C10_witness:
  "(\<exists>content.
      readJson (replace_lang (Pattern ''/admin/i18n/'' ''/translations.json'') example_base ''en'')
        (snd (adminWords2languages example_base ghost_world)) = Some content \<and>
      ''ghost'' \<notin> set (keys content)) \<and>
   (\<exists>content.
      readJson (replace_lang (Pattern ''/admin/i18n/'' ''/translations.json'') example_base ''de'')
        (snd (adminWords2languages example_base ghost_world)) = Some content \<and>
      ''ghost'' \<notin> set (keys content))"
proof -
  have w: "wordsFile ghost_world
      = Some (createWordsJs [CHR 0x0A] [(''hello'', [(''en'', ''Hello'')]), (''ghost'', [])])"
    by (simp add: ghost_world_def)
  have p: "parseWordJs (createWordsJs [CHR 0x0A] [(''hello'', [(''en'', ''Hello'')]), (''ghost'', [])])
      = Some [(''hello'', [(''en'', ''Hello'')]), (''ghost'', [])]"
    by code_simp
  have g: "obj_get [(''hello'', [(''en'', ''Hello'')]), (''ghost'', [])] ''ghost'' = Some []"
    by (simp add: obj_get_def)
  have "fst (adminWords2languages example_base ghost_world) = Inr ()"
    by code_simp
  then have r: "adminWords2languages example_base ghost_world
      = (Inr (), snd (adminWords2languages example_base ghost_world))"
    by (simp add: prod_eq_iff)
  have l: "''en'' \<in> set getLanguages" "''de'' \<in> set getLanguages"
    by (simp_all add: getLanguages_def)
  note all = C10_empty_entry_dropped[OF example_pattern w p g r]
  from bspec[OF all l(1)] bspec[OF all l(2)] show ?thesis by (rule conjI)
qed

section \<open>translateI18n: properties\<close>

subsection \<open>Filling a language file\<close>



text \<open>A base key named like a member of \<open>Object.prototype\<close> is not filled into a new object.\<close>

lemma fill_constructor:
  "fill tr lang [(''constructor'', ''Constructor''), (''hello'', ''Hello'')] []
     = map_option (\<lambda>r. [(''hello'', r)]) (tr ''Hello'' lang)"
  by (cases "tr ''Hello'' lang") (simp_all add: js_falsy_def proto_names_def obj_get_def)

subsection \<open>Patterns\<close>









subsection \<open>The two loops\<close>












subsection \<open>A German file with a key of its own\<close>





subsection \<open>Claims\<close>




subsection \<open>An admin directory below a directory named en\<close>

lemma en_admin_pattern:
  "createFilePattern ''/en/admin/i18n/en.json'' = Inr (Pattern ''/'' ''/admin/i18n/en.json'')"
  by (simp add: createFilePattern_def is_word_def)

lemma en_admin_match:
  "match_groups ''/'' ''/admin/i18n/en.json'' ''/en/admin/i18n/en.json''
     = Some (''/'', ''en'', ''/admin/i18n/en.json'')"
  by (simp add: match_groups_def ci_eq_def to_lower_def lang_char_def)

lemma en_admin_found:
  "findAllLanguageFiles ''/en/admin'' ''/en/admin/i18n/en.json'' en_admin_world
     = Inr [''/en/admin/i18n/en.json'']"
  "findAllLanguageFiles ''/en/admin'' ''/en/admin/i18n/en.json'' en_admin_world1
     = Inr [''/en/admin/i18n/en.json'']"
  by code_simp+

lemma en_admin_read:
  "readJson ''/en/admin/i18n/en.json'' en_admin_world = Some [(''hello'', ''Hello'')]"
  "readJson ''/en/admin/i18n/en.json'' en_admin_world1 = Some [(''hello'', ''Hello'')]"
  by (simp_all add: readJson_def en_admin_world_def en_admin_world1_def obj_get_def)

lemma en_admin_run1:
  "translateI18n example_tr ''/en/admin'' ''/en/admin/i18n/en.json'' en_admin_world
     = (Inr (), en_admin_world1)"
proof -
  have "translateI18n example_tr ''/en/admin'' ''/en/admin/i18n/en.json'' en_admin_world
      = (case translateI18n_existing example_tr (Pattern ''/'' ''/admin/i18n/en.json'')
                [(''hello'', ''Hello'')] [''/en/admin/i18n/en.json''] getLanguages
                en_admin_world of
           (Inl e, w') \<Rightarrow> (Inl e, w')
         | (Inr missingLanguages, w') \<Rightarrow>
             translateI18n_missing example_tr (Pattern ''/'' ''/admin/i18n/en.json'')
               ''/en/admin/i18n/en.json'' [(''hello'', ''Hello'')] missingLanguages w')"
    by (simp add: translateI18n_def en_admin_pattern en_admin_found en_admin_read)
  then show ?thesis
    by (simp add: en_admin_match getLanguages_def translateI18nJson_def translateText_def
        example_tr_def writeJson_def js_falsy_def proto_names_def obj_get_def en_admin_world_def
        en_admin_world1_def)
qed

lemma en_admin_run2:
  "translateI18n example_tr ''/en/admin'' ''/en/admin/i18n/en.json'' en_admin_world1
     = (Inr (), en_admin_world1\<lparr>calls := calls en_admin_world1 @ calls en_admin_world1\<rparr>)"
proof -
  have "translateI18n example_tr ''/en/admin'' ''/en/admin/i18n/en.json'' en_admin_world1
      = (case translateI18n_existing example_tr (Pattern ''/'' ''/admin/i18n/en.json'')
                [(''hello'', ''Hello'')] [''/en/admin/i18n/en.json''] getLanguages
                en_admin_world1 of
           (Inl e, w') \<Rightarrow> (Inl e, w')
         | (Inr missingLanguages, w') \<Rightarrow>
             translateI18n_missing example_tr (Pattern ''/'' ''/admin/i18n/en.json'')
               ''/en/admin/i18n/en.json'' [(''hello'', ''Hello'')] missingLanguages w')"
    by (simp add: translateI18n_def en_admin_pattern en_admin_found en_admin_read)
  then show ?thesis
    by (simp add: en_admin_match getLanguages_def translateI18nJson_def translateText_def
        example_tr_def writeJson_def js_falsy_def proto_names_def obj_get_def en_admin_world1_def)
qed

text \<open>
  C8. The claim does not hold of the code. The pattern replaces the first \<open>en\<close> between
  non-word characters of the whole path, not the language code of the base file name.
  With the admin directory \<open>/en/admin\<close> the files of the other languages are generated
  at \<open>/de/admin/i18n/en.json\<close> and so on, outside the admin directory. The second run
  does not discover them: it invokes the capability again for the key \<open>hello\<close> of every
  language, although each generated file holds a non-empty value for it.
\<close>

theorem C8_second_run_translates_again:
  "translateI18n example_tr ''/en/admin'' ''/en/admin/i18n/en.json'' en_admin_world
     = (Inr (), en_admin_world1) \<and>
   readJson ''/en/admin/i18n/en.json'' en_admin_world1
     = readJson ''/en/admin/i18n/en.json'' en_admin_world \<and>
   readJson ''/de/admin/i18n/en.json'' en_admin_world1 = Some [(''hello'', ''de:Hello'')] \<and>
   translateI18n example_tr ''/en/admin'' ''/en/admin/i18n/en.json'' en_admin_world1
     = (Inr (), en_admin_world1\<lparr>calls := calls en_admin_world1 @ calls en_admin_world1\<rparr>) \<and>
   (''Hello'', ''de'') \<in> set (calls en_admin_world1)"
proof -
  have "readJson ''/de/admin/i18n/en.json'' en_admin_world1 = Some [(''hello'', ''de:Hello'')]"
    by (simp add: readJson_def en_admin_world1_def obj_get_def)
  moreover have "(''Hello'', ''de'') \<in> set (calls en_admin_world1)"
    by (simp add: en_admin_world1_def)
  ultimately show ?thesis
    using en_admin_run1 en_admin_run2 en_admin_read by simp
qed

subsection \<open>The base file outside the admin directory\<close>

lemma outside_pattern:
  "createFilePattern ''/proj/src/i18n/en.json'' = Inr (Pattern ''/proj/src/i18n/'' ''.json'')"
  by (simp add: createFilePattern_def is_word_def)

lemma outside_match:
  "match_groups ''/proj/src/i18n/'' ''.json'' ''/proj/src/i18n/en.json''
     = Some (''/proj/src/i18n/'', ''en'', ''.json'')"
  by (simp add: match_groups_def ci_eq_def to_lower_def lang_char_def)

lemma outside_found:
  "findAllLanguageFiles ''/proj/admin'' ''/proj/src/i18n/en.json'' outside_world = Inr []"
  by code_simp

lemma outside_read:
  "readJson ''/proj/src/i18n/en.json'' outside_world = Some [(''hello'', ''Hello'')]"
  by (simp add: readJson_def outside_world_def obj_get_def)

lemma outside_run:
  "translateI18n example_tr ''/proj/admin'' ''/proj/src/i18n/en.json'' outside_world
   = (Inr (), \<lparr>files =
     [(''/proj/src/i18n/en.json'', []),
      (''/proj/src/i18n/de.json'', [(''hello'', ''de:Hello'')]),
      (''/proj/src/i18n/ru.json'', [(''hello'', ''ru:Hello'')]),
      (''/proj/src/i18n/pt.json'', [(''hello'', ''pt:Hello'')]),
      (''/proj/src/i18n/nl.json'', [(''hello'', ''nl:Hello'')]),
      (''/proj/src/i18n/fr.json'', [(''hello'', ''fr:Hello'')]),
      (''/proj/src/i18n/it.json'', [(''hello'', ''it:Hello'')]),
      (''/proj/src/i18n/es.json'', [(''hello'', ''es:Hello'')]),
      (''/proj/src/i18n/pl.json'', [(''hello'', ''pl:Hello'')]),
      (''/proj/src/i18n/zh-cn.json'', [(''hello'', ''zh-cn:Hello'')])],
     wordsFile = None,
     calls =
       [(''Hello'', ''de''), (''Hello'', ''ru''), (''Hello'', ''pt''),
        (''Hello'', ''nl''), (''Hello'', ''fr''), (''Hello'', ''it''),
        (''Hello'', ''es''), (''Hello'', ''pl''), (''Hello'', ''zh-cn'')],
     warnings = []\<rparr>)"
proof -
  have "translateI18n example_tr ''/proj/admin'' ''/proj/src/i18n/en.json'' outside_world
      = translateI18n_missing example_tr (Pattern ''/proj/src/i18n/'' ''.json'')
          ''/proj/src/i18n/en.json'' [(''hello'', ''Hello'')] getLanguages outside_world"
    by (simp add: translateI18n_def outside_pattern outside_found outside_read)
  then show ?thesis
    by (simp add: outside_match getLanguages_def translateI18nJson_def translateText_def
        example_tr_def writeJson_def js_falsy_def proto_names_def obj_get_def outside_world_def)
qed

text \<open>
  C4. The claim does not hold of the code: when the English base file is not among the
  discovered files, \<open>en\<close> stays in the set of missing languages and the second loop
  writes an empty object to the generated file name, which is the base file itself.
\<close>

theorem C4_english_file_overwritten:
  "readJson ''/proj/src/i18n/en.json'' outside_world = Some [(''hello'', ''Hello'')] \<and>
   findAllLanguageFiles ''/proj/admin'' ''/proj/src/i18n/en.json'' outside_world = Inr [] \<and>
   fst (translateI18n example_tr ''/proj/admin'' ''/proj/src/i18n/en.json'' outside_world)
     = Inr () \<and>
   readJson ''/proj/src/i18n/en.json''
     (snd (translateI18n example_tr ''/proj/admin'' ''/proj/src/i18n/en.json'' outside_world))
     = Some []"
proof -
  have "readJson ''/proj/src/i18n/en.json''
     (snd (translateI18n example_tr ''/proj/admin'' ''/proj/src/i18n/en.json'' outside_world))
     = Some []"
    unfolding outside_run by (simp add: readJson_def obj_get_def)
  with outside_read outside_found outside_run show ?thesis by simp
qed

section \<open>The round trip of the words asset\<close>

lemma two_backslashes_parse:
  "parseWordJs (createWordsJs [CHR 0x0A] [(''k'', [(''en'', [backslash, backslash])])])
     = Some [(''k'', [(''en'', [backslash])])]"
  by code_simp

lemma one_backslash_parse:
  "parseWordJs (createWordsJs [CHR 0x0A] [(''k'', [(''en'', [backslash])])]) = None"
  by code_simp

lemma serializations_differ:
  "createWordsJs [CHR 0x0A] [(''k'', [(''en'', [backslash])])]
     \<noteq> createWordsJs [CHR 0x0A] [(''k'', [(''en'', [backslash, backslash])])]"
  by code_simp

text \<open>
  C5. The claim does not hold of the code: \<open>createWordsJs\<close> escapes the double quote but
  not the backslash. A value of two backslashes, which has no control character, is
  written as it is, read back as one backslash, and serialized again to a different
  text; a value of one backslash escapes the closing quote and the text no longer
  parses.
\<close>

theorem C5_backslash_not_escaped:
  "\<not> is_control backslash \<and> \<not> is_control CHR ''k'' \<and>
   parseWordJs (createWordsJs [CHR 0x0A] [(''k'', [(''en'', [backslash, backslash])])])
     = Some [(''k'', [(''en'', [backslash])])] \<and>
   createWordsJs [CHR 0x0A] [(''k'', [(''en'', [backslash])])]
     \<noteq> createWordsJs [CHR 0x0A] [(''k'', [(''en'', [backslash, backslash])])] \<and>
   parseWordJs (createWordsJs [CHR 0x0A] [(''k'', [(''en'', [backslash])])]) = None"
proof -
  have "\<not> is_control backslash" "\<not> is_control CHR ''k''"
    by (simp_all add: is_control_def backslash_def)
  with two_backslashes_parse serializations_differ one_backslash_parse show ?thesis by simp
qed

end
